theory Spec2Isabelle
  imports Complex_Main
begin

section \<open>JavaScript strings\<close>

text \<open>
  A JavaScript string is a sequence of UTF-16 code units. The model takes the code units
  below 256 (the Latin-1 range, where a code unit is a code point), so a string is a
  \<open>char list\<close> and \<open>of_char c\<close> is the code unit. The three string built-ins that the
  source calls are given on that range.
\<close>

text \<open>
  \<open>\s\<close> in a regular expression and \<open>String.prototype.trim\<close> use the same set: the
  WhiteSpace and LineTerminator code points. Below 256 these are TAB, LF, VT, FF, CR,
  SPACE and NO-BREAK SPACE.
\<close>

definition isWhiteSpace :: "char \<Rightarrow> bool" where
  "isWhiteSpace c =
     (c = CHR 0x09 \<or> c = CHR 0x0A \<or> c = CHR 0x0B \<or> c = CHR 0x0C \<or> c = CHR 0x0D
      \<or> c = CHR 0x20 \<or> c = CHR 0xA0)"

text \<open>\<open>s.trim()\<close>: white space removed from both ends.\<close>

definition trim :: "string \<Rightarrow> string" where
  "trim s = rev (dropWhile isWhiteSpace (rev (dropWhile isWhiteSpace s)))"

text \<open>
  \<open>s.toLowerCase()\<close>: below 256 the letters with a lower-case partner are A to Z and
  U+00C0 to U+00DE without the multiplication sign U+00D7; the partner is 32 above.
\<close>

definition toLowerChar :: "char \<Rightarrow> char" where
  "toLowerChar c =
     (let n = (of_char c :: nat)
      in if (65 \<le> n \<and> n \<le> 90) \<or> (192 \<le> n \<and> n \<le> 222 \<and> n \<noteq> 215)
         then char_of (n + 32) else c)"

definition toLowerCase :: "string \<Rightarrow> string" where
  "toLowerCase s = map toLowerChar s"

text \<open>
  \<open>s.replace(/\s+/g, '_')\<close>: the string is scanned from the left; where a white space
  stands, the greedy \<open>\s+\<close> matches the whole run that starts there, the run is replaced
  by one underscore and the scan goes on behind it; every other code unit is kept.
\<close>

function replaceWhitespace :: "string \<Rightarrow> string" where
  "replaceWhitespace [] = []"
| "replaceWhitespace (c # cs) =
     (if isWhiteSpace c
      then CHR ''_'' # replaceWhitespace (dropWhile isWhiteSpace cs)
      else c # replaceWhitespace cs)"
  by pat_completeness auto
termination
  by (relation "measure length") (auto simp: length_dropWhile_le less_Suc_eq_le)

text \<open>
  A template literal prints a number in decimal; \<open>Date.now()\<close> is a non-negative
  integer (milliseconds since the epoch).
\<close>

definition digit :: "nat \<Rightarrow> char" where
  "digit d = char_of (48 + d)"

fun numberToString :: "nat \<Rightarrow> string" where
  "numberToString n =
     (if n < 10 then [digit n] else numberToString (n div 10) @ [digit (n mod 10)])"

declare numberToString.simps [simp del]

text \<open>
  \<open>v || d\<close> on an optional string: \<open>undefined\<close> and the empty string are falsy, so
  the default is taken for both.
\<close>

definition orElse :: "string option \<Rightarrow> string \<Rightarrow> string" where
  "orElse v d = (case v of None \<Rightarrow> d | Some s \<Rightarrow> if s = [] then d else s)"

section \<open>agentTemplate.ts\<close>

text \<open>
  \<open>interface AgentConfig\<close>: every field optional. \<open>maxMemoryMessages\<close> is a
  JavaScript number, a double: \<open>NaN\<close>, one of the two infinities, or a finite value
  \<open>Num q\<close>. Every finite double is a rational number, and both zeros are \<open>Num 0\<close>.
  The program does no arithmetic on the number, it only tests it and hands it on, so
  nothing below depends on which rationals are doubles.
\<close>

datatype number = NaN | PosInfinity | NegInfinity | Num rat

record AgentConfig =
  name :: "string option"
  instructions :: "string option"
  personality :: "string option"
  model :: "string option"
  maxMemoryMessages :: "number option"

text \<open>
  What \<open>new Agent({name, instructions, model})\<close> receives: the three options the
  constructor is given. The class itself belongs to the external framework.
\<close>

record Agent =
  agentName :: string
  agentInstructions :: string
  agentModel :: string

text \<open>
  The template literal of \<open>createAgentTemplate\<close>, as written: a line break, the
  instructions, a line break, the name line, a line break, the tone line, a line break
  and two spaces; then \<open>.trim()\<close>.
\<close>

definition fullInstructions :: "string \<Rightarrow> string \<Rightarrow> string \<Rightarrow> string" where
  "fullInstructions instr nm pers =
     trim ([CHR 0x0A] @ instr @ [CHR 0x0A] @ ''Your name is '' @ nm @ ''.'' @ [CHR 0x0A]
           @ ''Please respond in a '' @ pers @ '' tone.'' @ [CHR 0x0A] @ ''  '')"

definition createAgentTemplate :: "AgentConfig \<Rightarrow> Agent" where
  "createAgentTemplate config =
     (let nm = orElse (name config) ''Base Agent'';
          instr = orElse (instructions config) ''You are a helpful assistant.'';
          pers = orElse (personality config) ''neutral'';
          modelName = orElse (model config) ''qwen-2.5-32b''
      in \<lparr> agentName = nm,
           agentInstructions = fullInstructions instr nm pers,
           agentModel = modelName \<rparr>)"

text \<open>
  The composition rule in the words of the specification: the instructions, then the line
  \<open>Your name is {name}.\<close>, then the line \<open>Please respond in a {personality} tone.\<close>,
  and the composed string trimmed.
\<close>

definition composedPrompt :: "string \<Rightarrow> string \<Rightarrow> string \<Rightarrow> string" where
  "composedPrompt instr nm pers =
     trim (instr @ [CHR 0x0A] @ (''Your name is '' @ nm @ ''.'') @ [CHR 0x0A]
           @ (''Please respond in a '' @ pers @ '' tone.''))"


text \<open>
  What the external framework does with a call of \<open>agent.stream(message, {threadId,
  resourceId})\<close> and the iteration over \<open>result.textStream\<close>: a finite sequence of
  text fragments, and then either the end of the stream or a failure with its cause. A
  call that throws at once, or whose promise is rejected, is a failure after no fragment.
\<close>

datatype ending = Completed | Aborted string

type_synonym outcome = "string list \<times> ending"

section \<open>The registry object\<close>

text \<open>
  \<open>const agentInstances: Record<string, Agent> = {}\<close> is a plain object. Reading
  \<open>agentInstances[agentId]\<close> looks at the object's own properties first and then along
  its prototype chain, which for \<open>{}\<close> is \<open>Object.prototype\<close>. A value read from the
  registry is therefore \<open>undefined\<close>, a registered agent, a member of
  \<open>Object.prototype\<close> (named by its key), or, once an agent has been made the
  prototype, the property of that agent under the key.
\<close>

datatype jsvalue = Undefined | AgentV Agent | Builtin string | Member Agent string

record registry =
  own :: "string \<rightharpoonup> Agent"
  proto :: "Agent option"

definition emptyRegistry :: registry where
  "emptyRegistry = \<lparr> own = Map.empty, proto = None \<rparr>"

text \<open>The property names of \<open>Object.prototype\<close>; each holds a function or an object.\<close>

definition objectPrototypeKeys :: "string list" where
  "objectPrototypeKeys =
     [''constructor'', ''__defineGetter__'', ''__defineSetter__'', ''hasOwnProperty'',
      ''__lookupGetter__'', ''__lookupSetter__'', ''isPrototypeOf'',
      ''propertyIsEnumerable'', ''toString'', ''valueOf'', ''__proto__'',
      ''toLocaleString'']"

text \<open>
  \<open>agentInstances[key]\<close>. The accessor \<open>__proto__\<close> of \<open>Object.prototype\<close> returns
  the prototype of the object it is read from.
\<close>

definition getProperty :: "registry \<Rightarrow> string \<Rightarrow> jsvalue" where
  "getProperty reg key =
     (case own reg key of
        Some a \<Rightarrow> AgentV a
      | None \<Rightarrow>
          (case proto reg of
             None \<Rightarrow> if key \<in> set objectPrototypeKeys then Builtin key else Undefined
           | Some p \<Rightarrow> if key = ''__proto__'' then AgentV p else Member p key))"

text \<open>
  \<open>agentInstances[key] = agent\<close>. An own property is created or overwritten, except
  for the key \<open>__proto__\<close>: with no own property of that name the assignment reaches the
  setter of \<open>Object.prototype\<close>, which makes the agent the prototype of the registry.
  (Agents are taken to have no read-only member that would intercept the assignment.)
\<close>

definition setProperty :: "registry \<Rightarrow> string \<Rightarrow> Agent \<Rightarrow> registry" where
  "setProperty reg key a =
     (if key = ''__proto__'' \<and> own reg key = None
      then reg\<lparr> proto := Some a \<rparr>
      else reg\<lparr> own := (own reg)(key \<mapsto> a) \<rparr>)"

section \<open>The process and its collaborators\<close>

text \<open>One call of \<open>stream\<close>: the value it is called on and the arguments it is given.\<close>

record invocation =
  invReceiver :: jsvalue
  invMessage :: string
  invThreadId :: string
  invResourceId :: string

text \<open>
  What the program does not own and only asks: the clock (\<open>clock n\<close> is the reading
  of the \<open>n\<close>-th call of \<open>Date.now()\<close> in the process), the framework's answer to a
  call of \<open>stream\<close> given the calls made before it, whether a property read from an
  agent is truthy, and the message of the error that \<open>new Mastra({agents})\<close> throws for
  a registry, if it throws for it.
\<close>

record externals =
  clock :: "nat \<Rightarrow> nat"
  agentStream :: "invocation list \<Rightarrow> invocation \<Rightarrow> outcome"
  memberTruthy :: "Agent \<Rightarrow> string \<Rightarrow> bool"
  mastraError :: "registry \<Rightarrow> string option"

text \<open>
  The state of the server process: the registry, the \<open>Mastra\<close> instance of the last
  registration (the registry it was built from), the calls of \<open>stream\<close> made so far,
  what \<open>console.error\<close> has written (a label and the cause), and the number of
  readings of the clock taken. \<open>console.log\<close> traces are not part of the model.
\<close>

record server =
  agentInstances :: registry
  mastraInstance :: "registry option"
  calls :: "invocation list"
  stderr :: "(string \<times> string) list"
  ticks :: nat

definition dateNow :: "externals \<Rightarrow> server \<Rightarrow> nat \<times> server" where
  "dateNow ext st = (clock ext (ticks st), st\<lparr> ticks := Suc (ticks st) \<rparr>)"

text \<open>
  \<open>v || `prefix${Date.now()}`\<close>: the clock is read only when \<open>v\<close> is falsy.
\<close>

definition orTimestamp ::
  "externals \<Rightarrow> string option \<Rightarrow> string \<Rightarrow> server \<Rightarrow> string \<times> server" where
  "orTimestamp ext v prefix st =
     (case v of
        Some s \<Rightarrow>
          if s \<noteq> [] then (s, st)
          else (let (t, st') = dateNow ext st in (prefix @ numberToString t, st'))
      | None \<Rightarrow> (let (t, st') = dateNow ext st in (prefix @ numberToString t, st')))"

definition truthy :: "externals \<Rightarrow> jsvalue \<Rightarrow> bool" where
  "truthy ext v =
     (case v of
        Undefined \<Rightarrow> False
      | AgentV a \<Rightarrow> True
      | Builtin k \<Rightarrow> True
      | Member a k \<Rightarrow> memberTruthy ext a k)"

section \<open>The conversation helpers of agentTemplate.ts\<close>

definition apology :: string where
  "apology = ''Sorry, I encountered an error while processing your request.''"

text \<open>
  \<open>agent.stream(message, {threadId, resourceId})\<close> and the loop over the fragments. A
  member of \<open>Object.prototype\<close> has no \<open>stream\<close>, so the call is a \<open>TypeError\<close> and
  the framework is not reached; every other value is the framework's business.
\<close>

definition callStream ::
  "externals \<Rightarrow> jsvalue \<Rightarrow> string \<Rightarrow> string \<Rightarrow> string \<Rightarrow> server \<Rightarrow> outcome \<times> server" where
  "callStream ext agent message tid rid st =
     (case agent of
        Builtin k \<Rightarrow> (([], Aborted ''TypeError: agent.stream is not a function''), st)
      | _ \<Rightarrow>
          (let inv = \<lparr> invReceiver = agent, invMessage = message,
                       invThreadId = tid, invResourceId = rid \<rparr>
           in (agentStream ext (calls st) inv, st\<lparr> calls := calls st @ [inv] \<rparr>)))"

text \<open>
  \<open>simulateConversation\<close>. The first statement reads \<open>agent.name\<close> outside the
  \<open>try\<close>, so an \<open>undefined\<close> agent is a \<open>TypeError\<close> that leaves the function
  (\<open>Inl\<close>). Everything else is inside the \<open>try\<close>: the fragments are appended to
  \<open>fullResponse\<close> in order, and a failure is logged and answered with the apology.
\<close>

definition simulateConversation ::
  "externals \<Rightarrow> jsvalue \<Rightarrow> string \<Rightarrow> string option \<Rightarrow> string option \<Rightarrow> server
     \<Rightarrow> (string + string) \<times> server" where
  "simulateConversation ext agent message threadId resourceId st =
     (case agent of
        Undefined \<Rightarrow> (Inl ''TypeError: Cannot read properties of undefined'', st)
      | _ \<Rightarrow>
          (let (tid, st1) = orTimestamp ext threadId ''thread_'' st;
               (rid, st2) = orTimestamp ext resourceId ''user_'' st1;
               (out, st3) = callStream ext agent message tid rid st2
           in case snd out of
                Completed \<Rightarrow> (Inr (concat (fst out)), st3)
              | Aborted cause \<Rightarrow>
                  (Inr apology,
                   st3\<lparr> stderr := stderr st3 @ [(''Error in simulateConversation:'', cause)] \<rparr>)))"

text \<open>
  \<open>streamConversation\<close>: the identifiers are required, and \<open>onChunk\<close>, when given,
  is called with every fragment as it arrives. \<open>sink\<close> is the state the callback
  writes to (in the CLI demo, the terminal). The fragments delivered before a failure stay
  delivered.
\<close>

definition streamConversation ::
  "externals \<Rightarrow> jsvalue \<Rightarrow> string \<Rightarrow> string \<Rightarrow> string \<Rightarrow> (string \<Rightarrow> 's \<Rightarrow> 's) option \<Rightarrow> 's
     \<Rightarrow> server \<Rightarrow> (string + string) \<times> 's \<times> server" where
  "streamConversation ext agent message threadId resourceId onChunk sink st =
     (case agent of
        Undefined \<Rightarrow> (Inl ''TypeError: Cannot read properties of undefined'', sink, st)
      | _ \<Rightarrow>
          (let (out, st1) = callStream ext agent message threadId resourceId st;
               sink1 = (case onChunk of
                          None \<Rightarrow> sink
                        | Some f \<Rightarrow> foldl (\<lambda>s chunk. f chunk s) sink (fst out))
           in case snd out of
                Completed \<Rightarrow> (Inr (concat (fst out)), sink1, st1)
              | Aborted cause \<Rightarrow>
                  (Inr apology, sink1,
                   st1\<lparr> stderr := stderr st1 @ [(''Error in streamConversation:'', cause)] \<rparr>)))"

section \<open>The HTTP handlers\<close>

text \<open>
  The identity under which an agent is registered:
  \<open>config.name?.toLowerCase().replace(/\s+/g, '_') || `agent_${Date.now()}`\<close>.
  An absent name gives \<open>undefined\<close> and an empty name gives the empty string, both
  falsy, so both take the time-based identity.
\<close>

definition deriveIdentity :: "externals \<Rightarrow> string option \<Rightarrow> server \<Rightarrow> string \<times> server" where
  "deriveIdentity ext nm st =
     orTimestamp ext (map_option (\<lambda>n. replaceWhitespace (toLowerCase n)) nm) ''agent_'' st"

text \<open>
  \<open>config.maxMemoryMessages || 10\<close>: zero and \<open>NaN\<close> are the falsy numbers; every
  other number, an infinity too, is truthy and is the value of the expression.
\<close>

definition orNumber :: "number option \<Rightarrow> rat \<Rightarrow> number" where
  "orNumber v d =
     (case v of
        None \<Rightarrow> Num d
      | Some NaN \<Rightarrow> Num d
      | Some PosInfinity \<Rightarrow> PosInfinity
      | Some NegInfinity \<Rightarrow> NegInfinity
      | Some (Num q) \<Rightarrow> if q = 0 then Num d else Num q)"

text \<open>What the specification asks of a supplied \<open>maxMemoryMessages\<close>.\<close>

definition positiveInteger :: "number \<Rightarrow> bool" where
  "positiveInteger v =
     (case v of
        NaN \<Rightarrow> False
      | PosInfinity \<Rightarrow> False
      | NegInfinity \<Rightarrow> False
      | Num q \<Rightarrow> 0 < q \<and> of_int \<lfloor>q\<rfloor> = q)"

text \<open>The \<open>agent\<close> object of the response to a creation.\<close>

record agentDetails =
  detailsId :: string
  detailsName :: string
  detailsInstructions :: string
  detailsPersonality :: string
  detailsModel :: string
  detailsMaxMemoryMessages :: number

text \<open>
  The objects the handlers hand to \<open>res.json\<close>. \<open>ErrorBody m\<close> is
  \<open>{status: 'error', message: m}\<close>; \<open>Created d\<close> is
  \<open>{status: 'success', agent: d}\<close>; \<open>Reply r t u\<close> is
  \<open>{status: 'success', response: r, threadId: t, resourceId: u}\<close>;
  \<open>AgentFailed m e\<close> is \<open>{status: 'error', message: m, error: e}\<close>, which both the
  inner \<open>catch\<close> of the converse handler and the error middleware send.
\<close>

datatype body =
  ErrorBody string
| Created agentDetails
| Reply string string string
| AgentFailed string string

fun bodyStatus :: "body \<Rightarrow> string" where
  "bodyStatus (ErrorBody m) = ''error''"
| "bodyStatus (Created d) = ''success''"
| "bodyStatus (Reply r t u) = ''success''"
| "bodyStatus (AgentFailed m e) = ''error''"

datatype response = Response nat body

fun responseCode :: "response \<Rightarrow> nat" where
  "responseCode (Response code b) = code"

fun responseBody :: "response \<Rightarrow> body" where
  "responseBody (Response code b) = b"

text \<open>
  \<open>registerAgents(agents)\<close> returns \<open>new Mastra({agents})\<close>, or throws what the
  constructor throws. The instance is represented by the registry it was built from.
\<close>

definition registerAgents :: "externals \<Rightarrow> registry \<Rightarrow> string + registry" where
  "registerAgents ext agents =
     (case mastraError ext agents of Some err \<Rightarrow> Inl err | None \<Rightarrow> Inr agents)"

text \<open>
  \<open>createAgentHandler\<close>. The request body is the configuration, or nothing. The agent
  is stored under its identity, then a new \<open>Mastra\<close> instance is built from the
  registry, and the response shows the configuration with its defaults filled in. When
  \<open>registerAgents\<close> throws, the agent has already been stored; the \<open>catch\<close> hands
  the error to the error middleware, which writes it to \<open>console.error\<close> and answers
  500. The fields of the configuration are taken to have their declared types, and
  \<open>new Agent\<close> and \<open>groq\<close> to return normally.
\<close>

definition createAgentHandler ::
  "externals \<Rightarrow> AgentConfig option \<Rightarrow> server \<Rightarrow> response \<times> server" where
  "createAgentHandler ext reqBody st =
     (case reqBody of
        None \<Rightarrow> (Response 400 (ErrorBody ''Missing agent configuration''), st)
      | Some config \<Rightarrow>
          (let (agentId, st1) = deriveIdentity ext (name config) st;
               agent = createAgentTemplate config;
               reg = setProperty (agentInstances st1) agentId agent;
               st2 = st1\<lparr> agentInstances := reg \<rparr>
           in case registerAgents ext reg of
                Inr mastra \<Rightarrow>
                  (Response 200 (Created
                     \<lparr> detailsId = agentId,
                       detailsName = orElse (name config) ''Base Agent'',
                       detailsInstructions =
                         orElse (instructions config) ''You are a helpful assistant.'',
                       detailsPersonality = orElse (personality config) ''neutral'',
                       detailsModel = orElse (model config) ''qwen-2.5-32b'',
                       detailsMaxMemoryMessages = orNumber (maxMemoryMessages config) 10 \<rparr>),
                   st2\<lparr> mastraInstance := Some mastra \<rparr>)
              | Inl err \<Rightarrow>
                  (Response 500 (AgentFailed ''Internal server error'' err),
                   st2\<lparr> stderr := stderr st2 @ [(''Server error:'', err)] \<rparr>)))"

text \<open>The body of a request to \<open>/interact/:agentId\<close>.\<close>

record interactBody =
  message :: "string option"
  threadId :: "string option"
  resourceId :: "string option"

text \<open>
  \<open>interactAgentHandler\<close>. The identifiers are resolved once for the call of
  \<open>simulateConversation\<close> and, after the conversation has ended, once more for the
  response, each time with \<open>|| `thread_${Date.now()}`\<close> and
  \<open>|| `user_${Date.now()}`\<close>. The inner \<open>catch\<close> answers an error that leaves
  \<open>simulateConversation\<close>.
\<close>

definition interactAgentHandler ::
  "externals \<Rightarrow> string \<Rightarrow> interactBody \<Rightarrow> server \<Rightarrow> response \<times> server" where
  "interactAgentHandler ext agentId reqBody st =
     (if orElse (message reqBody) [] = []
      then (Response 400 (ErrorBody ''Missing message''), st)
      else
        (let agent = getProperty (agentInstances st) agentId
         in if \<not> truthy ext agent
            then (Response 404 (ErrorBody (''Agent with ID '' @ agentId @ '' not found'')), st)
            else
              (let (tid, st1) = orTimestamp ext (threadId reqBody) ''thread_'' st;
                   (rid, st2) = orTimestamp ext (resourceId reqBody) ''user_'' st1;
                   (result, st3) =
                     simulateConversation ext agent (orElse (message reqBody) [])
                       (Some tid) (Some rid) st2
               in case result of
                    Inr reply \<Rightarrow>
                      (let (tid', st4) = orTimestamp ext (threadId reqBody) ''thread_'' st3;
                           (rid', st5) = orTimestamp ext (resourceId reqBody) ''user_'' st4
                       in (Response 200 (Reply reply tid' rid'), st5))
                  | Inl agentError \<Rightarrow>
                      (Response 500
                         (AgentFailed ''Agent failed to process the message'' agentError),
                       st3\<lparr> stderr := stderr st3 @ [(''Error in agent response:'', agentError)] \<rparr>))))"

section \<open>Start of the process\<close>

text \<open>
  \<open>process.env\<close> after \<open>dotenv.config()\<close>, as a map from variable names to values.
  The module \<open>agentTemplate\<close> throws at its top level when \<open>GOOGLE_API_KEY\<close> is
  falsy; the server module imports it first and then throws when \<open>GROQ_API_KEY\<close> is
  falsy. An error thrown there ends the process before \<open>app.listen\<close>.
\<close>

definition loadAgentTemplate :: "(string \<rightharpoonup> string) \<Rightarrow> string + unit" where
  "loadAgentTemplate env =
     (if orElse (env ''GOOGLE_API_KEY'') [] = []
      then Inl ''FATAL: GOOGLE_API_KEY environment variable not found!''
      else Inr ())"

definition initialServer :: server where
  "initialServer =
     \<lparr> agentInstances = emptyRegistry, mastraInstance = None, calls = [], stderr = [],
       ticks = 0 \<rparr>"

definition startServer :: "(string \<rightharpoonup> string) \<Rightarrow> string + server" where
  "startServer env =
     (case loadAgentTemplate env of
        Inl fatal \<Rightarrow> Inl fatal
      | Inr u \<Rightarrow>
          if orElse (env ''GROQ_API_KEY'') [] = []
          then Inl ''FATAL: GROQ_API_KEY environment variable not found!''
          else Inr initialServer)"

text \<open>The two \<open>POST\<close> routes, and the requests handled one after another.\<close>

datatype request = CreateAgent "AgentConfig option" | Interact string interactBody

definition handle :: "externals \<Rightarrow> request \<Rightarrow> server \<Rightarrow> response \<times> server" where
  "handle ext req st =
     (case req of
        CreateAgent reqBody \<Rightarrow> createAgentHandler ext reqBody st
      | Interact agentId reqBody \<Rightarrow> interactAgentHandler ext agentId reqBody st)"

fun serve :: "externals \<Rightarrow> request list \<Rightarrow> server \<Rightarrow> response list \<times> server" where
  "serve ext [] st = ([], st)"
| "serve ext (req # reqs) st =
     (let (r, st1) = handle ext req st;
          (rs, st2) = serve ext reqs st1
      in (r # rs, st2))"

definition runServer ::
  "externals \<Rightarrow> (string \<rightharpoonup> string) \<Rightarrow> request list \<Rightarrow> string + (response list \<times> server)" where
  "runServer ext env reqs =
     (case startServer env of
        Inl fatal \<Rightarrow> Inl fatal
      | Inr st \<Rightarrow> Inr (serve ext reqs st))"

text \<open>
  The key under which the CLI demo registers its agent: the answer to the name prompt,
  \<open>'Demo Agent'\<close> when it is empty, then
  \<open>config.name.toLowerCase().replace(/\s+/g, '_')\<close>.
\<close>

definition runDemoKey :: "string \<Rightarrow> string" where
  "runDemoKey answer = replaceWhitespace (toLowerCase (orElse (Some answer) ''Demo Agent''))"

section \<open>Samples\<close>

text \<open>
  The configuration and the message of the end-to-end scenario of the specification.
\<close>

definition friendlyBot :: AgentConfig where
  "friendlyBot =
     \<lparr> name = Some ''FriendlyBot'', instructions = Some ''You are cheerful.'',
       personality = Some ''friendly'', model = None, maxMemoryMessages = None \<rparr>"

definition hello :: interactBody where
  "hello = \<lparr> message = Some ''Hello'', threadId = None, resourceId = None \<rparr>"

definition helloAgain :: interactBody where
  "helloAgain = \<lparr> message = Some ''Hello'', threadId = Some ''t1'', resourceId = Some ''u1'' \<rparr>"

text \<open>
  Two concrete settings of the collaborators. In both, the clock reads 1000 for the first
  two readings and 1850 afterwards (the conversation takes time). In the first the
  framework streams two fragments and ends; in the second the stream breaks after one
  fragment.
\<close>

definition sampleExternals :: externals where
  "sampleExternals =
     \<lparr> clock = (\<lambda>n. if n < 2 then 1000 else 1850),
       agentStream = (\<lambda>history inv. ([''Hello'', '' there''], Completed)),
       memberTruthy = (\<lambda>a k. False),
       mastraError = (\<lambda>agents. None) \<rparr>"

definition failingExternals :: externals where
  "failingExternals =
     \<lparr> clock = (\<lambda>n. if n < 2 then 1000 else 1850),
       agentStream = (\<lambda>history inv. ([''Hel''], Aborted ''socket hang up'')),
       memberTruthy = (\<lambda>a k. False),
       mastraError = (\<lambda>agents. None) \<rparr>"

text \<open>
  A third setting, of a framework that looks names up in plain objects of its own: an
  agent's \<open>name\<close> property is its non-empty name, a value that is not an agent has no
  \<open>stream\<close>, and \<open>new Mastra\<close> refuses a registry that has an entry under a member
  name of \<open>Object.prototype\<close>, taking it for a duplicate.
\<close>

definition plainObjectExternals :: externals where
  "plainObjectExternals =
     \<lparr> clock = (\<lambda>n. if n < 2 then 1000 else 1850),
       agentStream =
         (\<lambda>history inv.
            case invReceiver inv of
              AgentV a \<Rightarrow> ([''Hello'', '' there''], Completed)
            | _ \<Rightarrow> ([], Aborted ''TypeError: agent.stream is not a function'')),
       memberTruthy = (\<lambda>a k. k = ''name'' \<and> agentName a \<noteq> []),
       mastraError =
         (\<lambda>agents.
            case List.find (\<lambda>k. own agents k \<noteq> None) objectPrototypeKeys of
              Some k \<Rightarrow> Some (''Agent with name ID:'' @ k @ '' already exists'')
            | None \<Rightarrow> None) \<rparr>"

text \<open>The server after the agent of the scenario has been created.\<close>

definition sampleServer :: server where
  "sampleServer = snd (createAgentHandler sampleExternals (Some friendlyBot) initialServer)"

text \<open>
  Two configurations that differ in their instructions and share the name \<open>Helper\<close>,
  and the server of the scenario after both have been created, in this order.
\<close>

definition helperBot :: AgentConfig where
  "helperBot = friendlyBot\<lparr> name := Some ''Helper'' \<rparr>"

definition helperBotAgain :: AgentConfig where
  "helperBotAgain = helperBot\<lparr> instructions := Some ''You are formal.'' \<rparr>"

definition helperServer :: server where
  "helperServer =
     snd (createAgentHandler sampleExternals (Some helperBotAgain)
       (snd (createAgentHandler sampleExternals (Some helperBot) sampleServer)))"

text \<open>
  Two configurations that differ in their instructions and share the name
  \<open>__proto__\<close>, and a fresh server after both have been created, in this order.
\<close>

definition protoBot :: AgentConfig where
  "protoBot = friendlyBot\<lparr> name := Some ''__proto__'' \<rparr>"

definition protoBotAgain :: AgentConfig where
  "protoBotAgain = protoBot\<lparr> instructions := Some ''You are formal.'' \<rparr>"

definition protoServer :: server where
  "protoServer =
     snd (createAgentHandler plainObjectExternals (Some protoBotAgain)
       (snd (createAgentHandler plainObjectExternals (Some protoBot) initialServer)))"

section \<open>Trimming\<close>

lemma trim_padding:
  assumes "\<forall>c \<in> set pre. isWhiteSpace c" and "\<forall>c \<in> set post. isWhiteSpace c"
  shows "trim (pre @ s @ post) = trim s"
proof (cases "\<forall>c \<in> set s. isWhiteSpace c")
  case True
  with assms have A: "dropWhile isWhiteSpace (pre @ s @ post) = []"
    by auto
  from True have B: "dropWhile isWhiteSpace s = []"
    by auto
  show ?thesis
    unfolding trim_def A B by simp
next
  case False
  then obtain x where x: "x \<in> set s" "\<not> isWhiteSpace x"
    by blast
  have "dropWhile isWhiteSpace (pre @ s @ post) = dropWhile isWhiteSpace (s @ post)"
    using assms(1) by simp
  also have "\<dots> = dropWhile isWhiteSpace s @ post"
    using x by simp
  finally have "rev (dropWhile isWhiteSpace (pre @ s @ post))
      = rev post @ rev (dropWhile isWhiteSpace s)"
    by simp
  moreover have "dropWhile isWhiteSpace (rev post @ rev (dropWhile isWhiteSpace s))
      = dropWhile isWhiteSpace (rev (dropWhile isWhiteSpace s))"
    by (rule dropWhile_append2) (use assms(2) in simp)
  ultimately show ?thesis
    by (simp add: trim_def)
qed

lemma dropWhile_snoc:
  "\<not> P c \<Longrightarrow> dropWhile P (s @ [c]) = dropWhile P s @ [c]"
  by (induction s) simp_all

lemma trim_ends_in_text:
  assumes "\<not> isWhiteSpace c"
  shows "trim (s @ [c]) = dropWhile isWhiteSpace (s @ [c])"
  unfolding trim_def using assms by (simp add: dropWhile_snoc)

section \<open>The system prompt\<close>

text \<open>
  Claim C1. For every configuration, after the defaults are filled in, the system prompt
  the agent is created with is the composition the specification describes: the
  instructions, then the line with the name, then the line with the tone, and the whole
  trimmed. The second equation shows the order directly: the composed text ends in a full
  stop, so trimming only removes white space in front, and the name line and the tone line
  follow the instructions in that order.
\<close>

theorem systemPrompt_composition:
  "agentInstructions (createAgentTemplate config) =
     composedPrompt (orElse (instructions config) ''You are a helpful assistant.'')
       (orElse (name config) ''Base Agent'') (orElse (personality config) ''neutral'')
   \<and> agentInstructions (createAgentTemplate config) =
     dropWhile isWhiteSpace
       (orElse (instructions config) ''You are a helpful assistant.'' @ [CHR 0x0A]
        @ ''Your name is '' @ orElse (name config) ''Base Agent'' @ ''.'' @ [CHR 0x0A]
        @ ''Please respond in a '' @ orElse (personality config) ''neutral'' @ '' tone.'')"
proof -
  define composed where "composed =
    orElse (instructions config) ''You are a helpful assistant.'' @ [CHR 0x0A]
      @ ''Your name is '' @ orElse (name config) ''Base Agent'' @ ''.'' @ [CHR 0x0A]
      @ ''Please respond in a '' @ orElse (personality config) ''neutral'' @ '' tone.''"
  have ws: "\<forall>c \<in> set [CHR 0x0A]. isWhiteSpace c"
    "\<forall>c \<in> set ([CHR 0x0A] @ ''  ''). isWhiteSpace c"
    by (simp_all add: isWhiteSpace_def)
  have code: "agentInstructions (createAgentTemplate config)
      = trim ([CHR 0x0A] @ composed @ ([CHR 0x0A] @ ''  ''))"
    by (simp add: createAgentTemplate_def fullInstructions_def Let_def composed_def)
  have spec: "composedPrompt (orElse (instructions config) ''You are a helpful assistant.'')
       (orElse (name config) ''Base Agent'') (orElse (personality config) ''neutral'')
      = trim composed"
    by (simp add: composedPrompt_def composed_def)
  have ending: "composed =
      (orElse (instructions config) ''You are a helpful assistant.'' @ [CHR 0x0A]
       @ ''Your name is '' @ orElse (name config) ''Base Agent'' @ ''.'' @ [CHR 0x0A]
       @ ''Please respond in a '' @ orElse (personality config) ''neutral'' @ '' tone'')
      @ [CHR ''.'']"
    by (simp add: composed_def)
  have "\<not> isWhiteSpace CHR ''.''"
    by (simp add: isWhiteSpace_def)
  then have "trim composed = dropWhile isWhiteSpace composed"
    unfolding ending by (rule trim_ends_in_text)
  moreover have "trim ([CHR 0x0A] @ composed @ ([CHR 0x0A] @ ''  '')) = trim composed"
    using ws by (rule trim_padding)
  ultimately show ?thesis
    unfolding code spec by (simp only: composed_def)
qed

section \<open>The identity of an agent\<close>

text \<open>
  How \<open>replace(/\s+/g, '_')\<close> acts: a string without white space is kept, a prefix
  without white space is kept, a whole run of white space becomes one underscore, and the
  result holds no white space.
\<close>

lemma replaceWhitespace_Nil_iff: "replaceWhitespace s = [] \<longleftrightarrow> s = []"
  by (cases s) simp_all

lemma toLowerCase_Nil_iff: "toLowerCase s = [] \<longleftrightarrow> s = []"
  by (simp add: toLowerCase_def)

lemma deriveIdentity_named:
  "nm \<noteq> [] \<Longrightarrow> deriveIdentity ext (Some nm) st = (replaceWhitespace (toLowerCase nm), st)"
  by (simp add: deriveIdentity_def orTimestamp_def replaceWhitespace_Nil_iff toLowerCase_Nil_iff)

lemma replaceWhitespace_plain:
  "\<forall>c \<in> set s. \<not> isWhiteSpace c \<Longrightarrow> replaceWhitespace s = s"
  by (induction s) simp_all

lemma replaceWhitespace_run:
  assumes "w \<noteq> []" and "\<forall>c \<in> set w. isWhiteSpace c" and "b = [] \<or> \<not> isWhiteSpace (hd b)"
  shows "replaceWhitespace (w @ b) = CHR ''_'' # replaceWhitespace b"
proof -
  from assms(1) obtain c cs where w: "w = c # cs"
    by (cases w) auto
  have "dropWhile isWhiteSpace (cs @ b) = b"
  proof (cases b)
    case Nil
    with assms(2) w show ?thesis by simp
  next
    case (Cons x xs)
    with assms(3) have "\<not> isWhiteSpace x" by simp
    with assms(2) w Cons show ?thesis by (simp add: dropWhile_append3)
  qed
  with assms(2) w show ?thesis by simp
qed

lemma replaceWhitespace_append_plain:
  "\<forall>c \<in> set a. \<not> isWhiteSpace c \<Longrightarrow> replaceWhitespace (a @ s) = a @ replaceWhitespace s"
  by (induction a) simp_all

lemma underscore_not_whitespace: "\<not> isWhiteSpace CHR ''_''"
  by (simp add: isWhiteSpace_def)

lemma replaceWhitespace_no_whitespace:
  "c \<in> set (replaceWhitespace s) \<Longrightarrow> \<not> isWhiteSpace c"
proof (induction s rule: replaceWhitespace.induct)
  case 1
  then show ?case by simp
next
  case (2 d ds)
  show ?case
  proof (cases "isWhiteSpace d")
    case True
    with "2.prems" have "c = CHR ''_'' \<or> c \<in> set (replaceWhitespace (dropWhile isWhiteSpace ds))"
      by simp
    with True "2.IH"(1) underscore_not_whitespace show ?thesis
      by blast
  next
    case False
    with "2.prems" have "c = d \<or> c \<in> set (replaceWhitespace ds)"
      by simp
    with False "2.IH"(2) show ?thesis
      by blast
  qed
qed

text \<open>
  Claim C2, as the code has it. For every present, non-empty name the identity is the name
  in lower case with every run of white space replaced by one underscore; the clock is not
  read and the state is unchanged, and the CLI demo computes the same key. The identity
  holds no white space. Replacing runs means: a stretch without white space is kept, the
  whole run that follows it becomes one underscore, and the rest is treated the same way.
  Nothing is trimmed, so a run at the start or at the end of the name becomes an underscore
  as well: \<open>Friendly Bot\<close> gives \<open>friendly_bot\<close>, and \<open>  multi   space  \<close> gives
  \<open>_multi_space_\<close>.
\<close>

theorem deriveIdentity_present:
  assumes "nm \<noteq> []"
  shows "deriveIdentity ext (Some nm) st = (replaceWhitespace (toLowerCase nm), st)
      \<and> runDemoKey nm = replaceWhitespace (toLowerCase nm)
      \<and> (\<forall>c \<in> set (replaceWhitespace (toLowerCase nm)). \<not> isWhiteSpace c)
      \<and> ((\<forall>c \<in> set a. \<not> isWhiteSpace c) \<longrightarrow> w \<noteq> [] \<longrightarrow> (\<forall>c \<in> set w. isWhiteSpace c) \<longrightarrow>
           (b = [] \<or> \<not> isWhiteSpace (hd b)) \<longrightarrow>
           replaceWhitespace (a @ w @ b) = a @ CHR ''_'' # replaceWhitespace b)"
proof -
  have "deriveIdentity ext (Some nm) st = (replaceWhitespace (toLowerCase nm), st)"
    using assms
    by (simp add: deriveIdentity_def orTimestamp_def replaceWhitespace_Nil_iff toLowerCase_Nil_iff)
  moreover have "runDemoKey nm = replaceWhitespace (toLowerCase nm)"
    using assms by (simp add: runDemoKey_def orElse_def)
  moreover have "\<forall>c \<in> set (replaceWhitespace (toLowerCase nm)). \<not> isWhiteSpace c"
    using replaceWhitespace_no_whitespace by blast
  moreover have "replaceWhitespace (a @ w @ b) = a @ CHR ''_'' # replaceWhitespace b"
    if "\<forall>c \<in> set a. \<not> isWhiteSpace c" and "w \<noteq> []" and "\<forall>c \<in> set w. isWhiteSpace c"
      and "b = [] \<or> \<not> isWhiteSpace (hd b)"
    using that by (simp add: replaceWhitespace_append_plain replaceWhitespace_run)
  ultimately show ?thesis
    by blast
qed

theorem deriveIdentity_present_witness:
  "deriveIdentity sampleExternals (Some ''Friendly Bot'') initialServer = (''friendly_bot'', initialServer)
   \<and> deriveIdentity sampleExternals (Some ''  multi   space  '') initialServer = (''_multi_space_'', initialServer)
   \<and> replaceWhitespace (''multi'' @ ''   '' @ ''space'') = ''multi'' @ CHR ''_'' # ''space''"
proof -
  have lower: "replaceWhitespace (toLowerCase ''Friendly Bot'') = ''friendly_bot''"
    "replaceWhitespace (toLowerCase ''  multi   space  '') = ''_multi_space_''"
    by code_simp+
  have plain: "\<forall>c \<in> set ''multi''. \<not> isWhiteSpace c" "\<forall>c \<in> set ''space''. \<not> isWhiteSpace c"
    and run: "''   '' \<noteq> []" "\<forall>c \<in> set ''   ''. isWhiteSpace c"
      "''space'' = [] \<or> \<not> isWhiteSpace (hd ''space'')"
    by (simp_all add: isWhiteSpace_def)
  have given: "''Friendly Bot'' \<noteq> []" "''  multi   space  '' \<noteq> []"
    by simp_all
  note first = deriveIdentity_present
    [OF given(1), of sampleExternals initialServer "''multi''" "''   ''" "''space''"]
  note second = deriveIdentity_present
    [OF given(2), of sampleExternals initialServer "''multi''" "''   ''" "''space''"]
  from first have a: "deriveIdentity sampleExternals (Some ''Friendly Bot'') initialServer =
      (''friendly_bot'', initialServer)"
    by (simp add: lower)
  from second have b: "deriveIdentity sampleExternals (Some ''  multi   space  '') initialServer =
      (''_multi_space_'', initialServer)"
    by (simp add: lower)
  from second plain(1) run have "replaceWhitespace (''multi'' @ ''   '' @ ''space'') =
      ''multi'' @ CHR ''_'' # replaceWhitespace ''space''"
    by blast
  with plain(2) have c: "replaceWhitespace (''multi'' @ ''   '' @ ''space'') =
      ''multi'' @ CHR ''_'' # ''space''"
    by (simp add: replaceWhitespace_plain)
  from a b c show ?thesis
    by blast
qed

text \<open>
  The example of the specification for C2, \<open>multi_space\<close> for the name
  \<open>  multi   space  \<close>, is not what the expression computes.
\<close>

theorem deriveIdentity_multi_space_counterexample:
  "fst (deriveIdentity sampleExternals (Some ''  multi   space  '') initialServer) = ''_multi_space_''
   \<and> fst (deriveIdentity sampleExternals (Some ''  multi   space  '') initialServer) \<noteq> ''multi_space''"
  by code_simp

section \<open>The registry\<close>

lemma setProperty_twice:
  "setProperty (setProperty reg key a) key b = setProperty reg key b"
  by (cases "key = ''__proto__'' \<and> own reg key = None") (auto simp: setProperty_def)

lemma getProperty_setProperty_same:
  "getProperty (setProperty reg key a) key = AgentV a"
  by (cases "key = ''__proto__'' \<and> own reg key = None") (auto simp: getProperty_def setProperty_def)

lemma own_setProperty_other:
  "j \<noteq> key \<Longrightarrow> own (setProperty reg key a) j = own reg j"
  by (simp add: setProperty_def)

lemma getProperty_setProperty_entry:
  "j \<noteq> key \<Longrightarrow> getProperty reg j = AgentV b \<Longrightarrow> getProperty (setProperty reg key a) j = AgentV b"
  by (auto simp: getProperty_def setProperty_def split: option.splits if_splits)

lemma getProperty_setProperty_other:
  "j \<noteq> key \<Longrightarrow> key \<noteq> ''__proto__'' \<Longrightarrow> getProperty (setProperty reg key a) j = getProperty reg j"
  by (auto simp: getProperty_def setProperty_def split: option.splits)

lemma getProperty_unregistered:
  assumes "own reg key = None" and "proto reg = None" and "key \<notin> set objectPrototypeKeys"
  shows "getProperty reg key = Undefined"
  using assms by (simp add: getProperty_def)

section \<open>The clock and the conversation helpers\<close>

text \<open>
  \<open>orTimestamp\<close> returns a supplied, non-empty identifier without reading the clock,
  and otherwise reads it once; either way it changes nothing but the count of readings.
\<close>

lemma orTimestamp_supplied:
  "s \<noteq> [] \<Longrightarrow> orTimestamp ext (Some s) prefix st = (s, st)"
  by (simp add: orTimestamp_def)

lemma orTimestamp_absent:
  "v = None \<or> v = Some [] \<Longrightarrow>
     orTimestamp ext v prefix st =
       (prefix @ numberToString (clock ext (ticks st)), st\<lparr>ticks := Suc (ticks st)\<rparr>)"
  by (auto simp: orTimestamp_def dateNow_def)

lemma orTimestamp_state:
  "snd (orTimestamp ext v prefix st) = st \<or>
   snd (orTimestamp ext v prefix st) = st\<lparr>ticks := Suc (ticks st)\<rparr>"
  by (cases v) (simp_all add: orTimestamp_def dateNow_def)

lemma orTimestamp_frame:
  assumes "orTimestamp ext v prefix st = (s, st')"
  shows "agentInstances st' = agentInstances st" and "mastraInstance st' = mastraInstance st"
    and "calls st' = calls st" and "stderr st' = stderr st"
  using orTimestamp_state [of ext v prefix st] assms by auto

lemma orTimestamp_nonempty:
  assumes "orTimestamp ext v prefix st = (s, st')" and "prefix \<noteq> []"
  shows "s \<noteq> []"
  using assms
  by (cases v) (auto simp: orTimestamp_def dateNow_def split: if_splits)

lemma orTimestamp_update:
  assumes "orTimestamp ext v prefix st = (s, st')"
  shows "orTimestamp ext v prefix (st\<lparr>calls := c, stderr := e\<rparr>) = (s, st'\<lparr>calls := c, stderr := e\<rparr>)"
  using assms
  by (cases v) (auto simp: orTimestamp_def dateNow_def split: if_splits)

lemma orTimestamp_update_calls:
  assumes "orTimestamp ext v prefix st = (s, st')"
  shows "orTimestamp ext v prefix (st\<lparr>calls := c\<rparr>) = (s, st'\<lparr>calls := c\<rparr>)"
  using assms
  by (cases v) (auto simp: orTimestamp_def dateNow_def split: if_splits)

lemma orTimestamp_clock:
  "clock ext' = clock ext \<Longrightarrow> orTimestamp ext' v prefix st = orTimestamp ext v prefix st"
  by (cases v) (simp_all add: orTimestamp_def dateNow_def)

lemma callStream_frame:
  assumes "callStream ext agent msg tid rid st = (out, st')"
  shows "agentInstances st' = agentInstances st" and "mastraInstance st' = mastraInstance st"
    and "stderr st' = stderr st" and "ticks st' = ticks st"
  using assms by (cases agent; auto simp: callStream_def Let_def)+

lemma callStream_agent:
  "callStream ext (AgentV a) msg tid rid st =
     (agentStream ext (calls st)
        \<lparr>invReceiver = AgentV a, invMessage = msg, invThreadId = tid, invResourceId = rid\<rparr>,
      st\<lparr>calls := calls st @
        [\<lparr>invReceiver = AgentV a, invMessage = msg, invThreadId = tid, invResourceId = rid\<rparr>]\<rparr>)"
  by (simp add: callStream_def Let_def)

lemma simulateConversation_agent:
  assumes "orTimestamp ext thr ''thread_'' st = (tid, st1)"
    and "orTimestamp ext rsc ''user_'' st1 = (rid, st2)"
    and "agentStream ext (calls st)
           \<lparr>invReceiver = AgentV a, invMessage = msg, invThreadId = tid, invResourceId = rid\<rparr>
         = (chunks, fin)"
  shows "simulateConversation ext (AgentV a) msg thr rsc st =
     (case fin of
        Completed \<Rightarrow>
          (Inr (concat chunks),
           st2\<lparr>calls := calls st @
             [\<lparr>invReceiver = AgentV a, invMessage = msg, invThreadId = tid, invResourceId = rid\<rparr>]\<rparr>)
      | Aborted cause \<Rightarrow>
          (Inr apology,
           st2\<lparr>calls := calls st @
             [\<lparr>invReceiver = AgentV a, invMessage = msg, invThreadId = tid, invResourceId = rid\<rparr>],
             stderr := stderr st @ [(''Error in simulateConversation:'', cause)]\<rparr>))"
proof -
  have c: "calls st2 = calls st" and e: "stderr st2 = stderr st"
    using orTimestamp_frame [OF assms(1)] orTimestamp_frame [OF assms(2)] by simp_all
  show ?thesis
    by (cases fin)
      (simp_all add: simulateConversation_def callStream_agent assms c e)
qed

lemma simulateConversation_cases:
  assumes "agent \<noteq> Undefined"
  obtains reply st' where "simulateConversation ext agent msg thr rsc st = (Inr reply, st')"
    and "agentInstances st' = agentInstances st" and "mastraInstance st' = mastraInstance st"
proof -
  obtain tid st1 where 1: "orTimestamp ext thr ''thread_'' st = (tid, st1)"
    by (cases "orTimestamp ext thr ''thread_'' st")
  obtain rid st2 where 2: "orTimestamp ext rsc ''user_'' st1 = (rid, st2)"
    by (cases "orTimestamp ext rsc ''user_'' st1")
  obtain chunks fin st3 where 3: "callStream ext agent msg tid rid st2 = ((chunks, fin), st3)"
    by (cases "callStream ext agent msg tid rid st2") auto
  have reg: "agentInstances st3 = agentInstances st" "mastraInstance st3 = mastraInstance st"
    using orTimestamp_frame [OF 1] orTimestamp_frame [OF 2] callStream_frame [OF 3] by simp_all
  show ?thesis
  proof (cases fin)
    case Completed
    with assms 1 2 3 have "simulateConversation ext agent msg thr rsc st = (Inr (concat chunks), st3)"
      by (cases agent) (simp_all add: simulateConversation_def)
    with reg that show ?thesis by blast
  next
    case (Aborted cause)
    with assms 1 2 3 have "simulateConversation ext agent msg thr rsc st =
        (Inr apology, st3\<lparr>stderr := stderr st3 @ [(''Error in simulateConversation:'', cause)]\<rparr>)"
      by (cases agent) (simp_all add: simulateConversation_def)
    moreover have "agentInstances (st3\<lparr>stderr := stderr st3 @ [(''Error in simulateConversation:'', cause)]\<rparr>) = agentInstances st"
      "mastraInstance (st3\<lparr>stderr := stderr st3 @ [(''Error in simulateConversation:'', cause)]\<rparr>) = mastraInstance st"
      using reg by simp_all
    ultimately show ?thesis using that by blast
  qed
qed

lemma streamConversation_agent:
  assumes "agentStream ext (calls st)
           \<lparr>invReceiver = AgentV a, invMessage = msg, invThreadId = tid, invResourceId = rid\<rparr>
         = (chunks, fin)"
  shows "streamConversation ext (AgentV a) msg tid rid onChunk sink st =
     (case fin of Completed \<Rightarrow> Inr (concat chunks) | Aborted cause \<Rightarrow> Inr apology,
      case onChunk of None \<Rightarrow> sink | Some f \<Rightarrow> foldl (\<lambda>s chunk. f chunk s) sink chunks,
      st\<lparr>calls := calls st @
            [\<lparr>invReceiver = AgentV a, invMessage = msg, invThreadId = tid, invResourceId = rid\<rparr>],
         stderr := (case fin of
                      Completed \<Rightarrow> stderr st
                    | Aborted cause \<Rightarrow> stderr st @ [(''Error in streamConversation:'', cause)])\<rparr>)"
  using assms
  by (cases fin; cases onChunk) (simp_all add: streamConversation_def callStream_agent)

section \<open>What a converse call can answer\<close>

text \<open>
  The three ways \<open>interactAgentHandler\<close> ends: 400 for a missing message, 404 when
  the value read from the registry is falsy, and otherwise 200 with whatever
  \<open>simulateConversation\<close> returned. The registry is the same afterwards in all three.
\<close>

lemma truthy_defined: "truthy ext v \<Longrightarrow> v \<noteq> Undefined"
  by (auto simp: truthy_def)

lemma interact_cases:
  obtains (missing) "orElse (message reqBody) [] = []"
      and "interactAgentHandler ext agentId reqBody st =
             (Response 400 (ErrorBody ''Missing message''), st)"
  | (notFound) "orElse (message reqBody) [] \<noteq> []"
      and "\<not> truthy ext (getProperty (agentInstances st) agentId)"
      and "interactAgentHandler ext agentId reqBody st =
             (Response 404 (ErrorBody (''Agent with ID '' @ agentId @ '' not found'')), st)"
  | (replied) reply tid rid st' where "orElse (message reqBody) [] \<noteq> []"
      and "truthy ext (getProperty (agentInstances st) agentId)"
      and "interactAgentHandler ext agentId reqBody st = (Response 200 (Reply reply tid rid), st')"
      and "agentInstances st' = agentInstances st" and "mastraInstance st' = mastraInstance st"
proof (cases "orElse (message reqBody) [] = []")
  case True
  then show ?thesis
    using missing by (simp add: interactAgentHandler_def)
next
  case False
  show ?thesis
  proof (cases "truthy ext (getProperty (agentInstances st) agentId)")
    case no: False
    with False show ?thesis
      using notFound by (simp add: interactAgentHandler_def)
  next
    case yes: True
    let ?agent = "getProperty (agentInstances st) agentId"
    obtain tid st1 where 1: "orTimestamp ext (threadId reqBody) ''thread_'' st = (tid, st1)"
      by (cases "orTimestamp ext (threadId reqBody) ''thread_'' st")
    obtain rid st2 where 2: "orTimestamp ext (resourceId reqBody) ''user_'' st1 = (rid, st2)"
      by (cases "orTimestamp ext (resourceId reqBody) ''user_'' st1")
    from yes have "?agent \<noteq> Undefined"
      by (rule truthy_defined)
    then obtain reply st3 where 3:
        "simulateConversation ext ?agent (orElse (message reqBody) []) (Some tid) (Some rid) st2
           = (Inr reply, st3)"
      and f3: "agentInstances st3 = agentInstances st2" "mastraInstance st3 = mastraInstance st2"
      by (rule simulateConversation_cases)
    obtain tid' st4 where 4: "orTimestamp ext (threadId reqBody) ''thread_'' st3 = (tid', st4)"
      by (cases "orTimestamp ext (threadId reqBody) ''thread_'' st3")
    obtain rid' st5 where 5: "orTimestamp ext (resourceId reqBody) ''user_'' st4 = (rid', st5)"
      by (cases "orTimestamp ext (resourceId reqBody) ''user_'' st4")
    have "interactAgentHandler ext agentId reqBody st = (Response 200 (Reply reply tid' rid'), st5)"
      using False yes by (simp add: interactAgentHandler_def 1 2 3 4 5)
    moreover have "agentInstances st5 = agentInstances st" "mastraInstance st5 = mastraInstance st"
      using orTimestamp_frame [OF 1] orTimestamp_frame [OF 2] f3
        orTimestamp_frame [OF 4] orTimestamp_frame [OF 5] by simp_all
    ultimately show ?thesis
      using False yes replied by blast
  qed
qed

lemma interact_never_500:
  "responseCode (fst (interactAgentHandler ext agentId reqBody st)) \<noteq> 500"
  by (rule interact_cases [where reqBody = reqBody and ext = ext and st = st and agentId = agentId])
    simp_all

lemma interact_registry_unchanged:
  "agentInstances (snd (interactAgentHandler ext agentId reqBody st)) = agentInstances st"
  by (rule interact_cases [where reqBody = reqBody and ext = ext and st = st and agentId = agentId])
    simp_all

lemma interact_not_found:
  assumes "message reqBody = Some m" and "m \<noteq> []"
    and "getProperty (agentInstances st) agentId = Undefined"
  shows "interactAgentHandler ext agentId reqBody st =
           (Response 404 (ErrorBody (''Agent with ID '' @ agentId @ '' not found'')), st)"
  using assms by (simp add: interactAgentHandler_def orElse_def truthy_def)

lemma interact_agent:
  assumes msg: "message reqBody = Some m" "m \<noteq> []"
    and agent: "getProperty (agentInstances st) agentId = AgentV a"
    and t1: "orTimestamp ext (threadId reqBody) ''thread_'' st = (tid, st1)"
    and r1: "orTimestamp ext (resourceId reqBody) ''user_'' st1 = (rid, st2)"
    and out: "agentStream ext (calls st)
           \<lparr>invReceiver = AgentV a, invMessage = m, invThreadId = tid, invResourceId = rid\<rparr>
         = (chunks, fin)"
    and t2: "orTimestamp ext (threadId reqBody) ''thread_'' st2 = (tid', st4)"
    and r2: "orTimestamp ext (resourceId reqBody) ''user_'' st4 = (rid', st5)"
  shows "interactAgentHandler ext agentId reqBody st =
     (Response 200
        (Reply (case fin of Completed \<Rightarrow> concat chunks | Aborted cause \<Rightarrow> apology) tid' rid'),
      st5\<lparr>calls := calls st @
             [\<lparr>invReceiver = AgentV a, invMessage = m, invThreadId = tid, invResourceId = rid\<rparr>],
           stderr := (case fin of
                        Completed \<Rightarrow> stderr st
                      | Aborted cause \<Rightarrow>
                          stderr st @ [(''Error in simulateConversation:'', cause)])\<rparr>)"
proof -
  let ?inv = "\<lparr>invReceiver = AgentV a, invMessage = m, invThreadId = tid, invResourceId = rid\<rparr>"
  have tid: "tid \<noteq> []" and rid: "rid \<noteq> []"
    using orTimestamp_nonempty [OF t1] orTimestamp_nonempty [OF r1] by simp_all
  have c2: "calls st2 = calls st" and e2: "stderr st2 = stderr st"
    using orTimestamp_frame [OF t1] orTimestamp_frame [OF r1] by simp_all
  have sim: "simulateConversation ext (AgentV a) m (Some tid) (Some rid) st2 =
     (case fin of
        Completed \<Rightarrow> (Inr (concat chunks), st2\<lparr>calls := calls st2 @ [?inv]\<rparr>)
      | Aborted cause \<Rightarrow>
          (Inr apology,
           st2\<lparr>calls := calls st2 @ [?inv],
             stderr := stderr st2 @ [(''Error in simulateConversation:'', cause)]\<rparr>))"
  proof (rule simulateConversation_agent)
    show "orTimestamp ext (Some tid) ''thread_'' st2 = (tid, st2)"
      using tid by (rule orTimestamp_supplied)
    show "orTimestamp ext (Some rid) ''user_'' st2 = (rid, st2)"
      using rid by (rule orTimestamp_supplied)
    show "agentStream ext (calls st2) ?inv = (chunks, fin)"
      using out by (simp only: c2)
  qed
  have start: "orElse (message reqBody) [] = m" "truthy ext (AgentV a)"
    using msg by (simp_all add: orElse_def truthy_def)
  show ?thesis
  proof (cases fin)
    case Completed
    have "orTimestamp ext (threadId reqBody) ''thread_'' (st2\<lparr>calls := calls st2 @ [?inv]\<rparr>)
        = (tid', st4\<lparr>calls := calls st2 @ [?inv]\<rparr>)"
      using t2 by (rule orTimestamp_update_calls)
    moreover have "orTimestamp ext (resourceId reqBody) ''user_'' (st4\<lparr>calls := calls st2 @ [?inv]\<rparr>)
        = (rid', st5\<lparr>calls := calls st2 @ [?inv]\<rparr>)"
      using r2 by (rule orTimestamp_update_calls)
    moreover have "stderr st5 = stderr st"
      using orTimestamp_frame [OF t2] orTimestamp_frame [OF r2] e2 by simp
    then have "st5\<lparr>calls := calls st @ [?inv], stderr := stderr st\<rparr> = st5\<lparr>calls := calls st @ [?inv]\<rparr>"
      by simp
    ultimately show ?thesis
      using Completed msg(2)
      by (simp add: interactAgentHandler_def start agent t1 r1 sim c2)
  next
    case (Aborted cause)
    let ?e = "stderr st2 @ [(''Error in simulateConversation:'', cause)]"
    have "orTimestamp ext (threadId reqBody) ''thread_'' (st2\<lparr>calls := calls st2 @ [?inv], stderr := ?e\<rparr>)
        = (tid', st4\<lparr>calls := calls st2 @ [?inv], stderr := ?e\<rparr>)"
      using t2 by (rule orTimestamp_update)
    moreover have "orTimestamp ext (resourceId reqBody) ''user_'' (st4\<lparr>calls := calls st2 @ [?inv], stderr := ?e\<rparr>)
        = (rid', st5\<lparr>calls := calls st2 @ [?inv], stderr := ?e\<rparr>)"
      using r2 by (rule orTimestamp_update)
    ultimately show ?thesis
      using Aborted msg(2)
      by (simp add: interactAgentHandler_def start agent t1 r1 sim c2 e2)
  qed
qed

lemma deriveIdentity_frame:
  assumes "deriveIdentity ext nm st = (i, st')"
  shows "agentInstances st' = agentInstances st" and "mastraInstance st' = mastraInstance st"
    and "calls st' = calls st" and "stderr st' = stderr st"
  using orTimestamp_frame [OF assms [unfolded deriveIdentity_def]] by simp_all

lemma createAgentHandler_result:
  assumes "deriveIdentity ext (name config) st = (i, st1)"
  shows "createAgentHandler ext (Some config) st =
     (case mastraError ext (setProperty (agentInstances st) i (createAgentTemplate config)) of
        None \<Rightarrow>
          (Response 200 (Created
             \<lparr>detailsId = i,
              detailsName = orElse (name config) ''Base Agent'',
              detailsInstructions = orElse (instructions config) ''You are a helpful assistant.'',
              detailsPersonality = orElse (personality config) ''neutral'',
              detailsModel = orElse (model config) ''qwen-2.5-32b'',
              detailsMaxMemoryMessages = orNumber (maxMemoryMessages config) 10\<rparr>),
           st1\<lparr>agentInstances := setProperty (agentInstances st) i (createAgentTemplate config),
               mastraInstance :=
                 Some (setProperty (agentInstances st) i (createAgentTemplate config))\<rparr>)
      | Some err \<Rightarrow>
          (Response 500 (AgentFailed ''Internal server error'' err),
           st1\<lparr>agentInstances := setProperty (agentInstances st) i (createAgentTemplate config),
               stderr := stderr st @ [(''Server error:'', err)]\<rparr>))"
  using deriveIdentity_frame [OF assms]
  by (cases "mastraError ext (setProperty (agentInstances st) i (createAgentTemplate config))")
    (simp_all add: createAgentHandler_def registerAgents_def assms Let_def)

lemma createAgentHandler_registry:
  assumes "deriveIdentity ext (name config) st = (i, st1)"
  shows "agentInstances (snd (createAgentHandler ext (Some config) st)) =
     setProperty (agentInstances st) i (createAgentTemplate config)"
  unfolding createAgentHandler_result [OF assms]
  by (cases "mastraError ext (setProperty (agentInstances st) i (createAgentTemplate config))")
    simp_all

lemma created_agent_resolves:
  "getProperty (agentInstances (snd (createAgentHandler ext (Some config) st)))
     (fst (deriveIdentity ext (name config) st)) = AgentV (createAgentTemplate config)"
  by (cases "deriveIdentity ext (name config) st")
    (simp add: createAgentHandler_registry getProperty_setProperty_same)

lemma createAgentTemplate_ignores_limit:
  "createAgentTemplate (config\<lparr>maxMemoryMessages := limit\<rparr>) = createAgentTemplate config"
  by (simp add: createAgentTemplate_def)

section \<open>Evaluating the samples\<close>

lemma digit_values:
  "digit 0 = CHR ''0''" "digit 1 = CHR ''1''" "digit 2 = CHR ''2''" "digit 3 = CHR ''3''"
  "digit 4 = CHR ''4''" "digit 5 = CHR ''5''" "digit 6 = CHR ''6''" "digit 7 = CHR ''7''"
  "digit 8 = CHR ''8''" "digit 9 = CHR ''9''" "digit (Suc 0) = CHR ''1''"
  by code_simp+

lemma numberToString_1000: "numberToString 1000 = ''1000''"
  by (simp add: numberToString.simps digit_values)

lemma numberToString_1850: "numberToString 1850 = ''1850''"
  by (simp add: numberToString.simps digit_values)

lemma friendlyBot_identity: "replaceWhitespace (toLowerCase ''FriendlyBot'') = ''friendlybot''"
  by code_simp

lemma friendlyBot_agent:
  "createAgentTemplate (friendlyBot\<lparr>maxMemoryMessages := limit\<rparr>) =
     \<lparr>agentName = ''FriendlyBot'',
      agentInstructions = ''You are cheerful.'' @ [CHR 0x0A] @ ''Your name is FriendlyBot.''
        @ [CHR 0x0A] @ ''Please respond in a friendly tone.'',
      agentModel = ''qwen-2.5-32b''\<rparr>"
proof -
  have "createAgentTemplate friendlyBot =
     \<lparr>agentName = ''FriendlyBot'',
      agentInstructions = ''You are cheerful.'' @ [CHR 0x0A] @ ''Your name is FriendlyBot.''
        @ [CHR 0x0A] @ ''Please respond in a friendly tone.'',
      agentModel = ''qwen-2.5-32b''\<rparr>"
    by code_simp
  then show ?thesis
    by (simp add: createAgentTemplate_def)
qed

lemmas run_simps =
  handle_def createAgentHandler_def interactAgentHandler_def deriveIdentity_def
  orTimestamp_def dateNow_def simulateConversation_def callStream_def truthy_def
  getProperty_def setProperty_def objectPrototypeKeys_def emptyRegistry_def initialServer_def
  orElse_def orNumber_def Let_def hello_def registerAgents_def
  numberToString_1000 numberToString_1850 friendlyBot_identity

lemma sampleServer_fields:
  "agentInstances sampleServer =
     \<lparr>own = [''friendlybot'' \<mapsto> createAgentTemplate friendlyBot], proto = None\<rparr>"
  "calls sampleServer = []" "stderr sampleServer = []" "ticks sampleServer = 0"
proof -
  have nm: "name friendlyBot = Some ''FriendlyBot''"
    by (simp add: friendlyBot_def)
  show "agentInstances sampleServer =
     \<lparr>own = [''friendlybot'' \<mapsto> createAgentTemplate friendlyBot], proto = None\<rparr>"
    "calls sampleServer = []" "stderr sampleServer = []" "ticks sampleServer = 0"
    by (simp_all add: sampleServer_def run_simps nm sampleExternals_def)
qed

lemma sampleServer_friendlybot:
  "getProperty (agentInstances sampleServer) ''friendlybot'' = AgentV (createAgentTemplate friendlyBot)"
  by (simp add: sampleServer_fields getProperty_def)

lemma helloAgain_ids:
  "message helloAgain = Some ''Hello''"
  "orTimestamp ext (threadId helloAgain) ''thread_'' st = (''t1'', st)"
  "orTimestamp ext (resourceId helloAgain) ''user_'' st = (''u1'', st)"
  by (simp_all add: helloAgain_def orTimestamp_supplied)

section \<open>Session identifiers\<close>

text \<open>
  Claim C3 at a concrete call. The agent of the scenario is created and a message is sent
  with no identifiers. The clock reads 1000 when the conversation starts and 1850 when the
  response is written. The framework is called with \<open>thread_1000\<close> and
  \<open>user_1000\<close>; the response carries \<open>thread_1850\<close> and \<open>user_1850\<close>, because
  the handler evaluates \<open>|| `thread_${Date.now()}`\<close> a second time for the response.
\<close>

theorem echo_mismatch:
  "calls (snd (serve sampleExternals
       [CreateAgent (Some friendlyBot), Interact ''friendlybot'' hello] initialServer)) =
     [\<lparr>invReceiver = AgentV (createAgentTemplate friendlyBot), invMessage = ''Hello'',
        invThreadId = ''thread_1000'', invResourceId = ''user_1000''\<rparr>]
   \<and> fst (serve sampleExternals
       [CreateAgent (Some friendlyBot), Interact ''friendlybot'' hello] initialServer) ! 1 =
     Response 200 (Reply ''Hello there'' ''thread_1850'' ''user_1850'')"
proof -
  have nm: "name friendlyBot = Some ''FriendlyBot''"
    by (simp add: friendlyBot_def)
  show ?thesis
    by (simp add: run_simps nm sampleExternals_def)
qed

text \<open>
  Identifiers that the caller supplies are the ones the framework is called with and the
  ones the response returns.
\<close>

theorem supplied_identifiers_echoed:
  assumes "message reqBody = Some m" and "m \<noteq> []"
    and "getProperty (agentInstances st) agentId = AgentV a"
    and "threadId reqBody = Some t" and "t \<noteq> []"
    and "resourceId reqBody = Some r" and "r \<noteq> []"
  shows "(\<exists>reply. fst (interactAgentHandler ext agentId reqBody st) = Response 200 (Reply reply t r))
      \<and> calls (snd (interactAgentHandler ext agentId reqBody st)) =
           calls st @
             [\<lparr>invReceiver = AgentV a, invMessage = m, invThreadId = t, invResourceId = r\<rparr>]"
proof -
  have ids: "\<And>s. orTimestamp ext (threadId reqBody) ''thread_'' s = (t, s)"
    "\<And>s. orTimestamp ext (resourceId reqBody) ''user_'' s = (r, s)"
    using assms(4-7) by (simp_all add: orTimestamp_supplied)
  obtain chunks fin where out: "agentStream ext (calls st)
      \<lparr>invReceiver = AgentV a, invMessage = m, invThreadId = t, invResourceId = r\<rparr> = (chunks, fin)"
    by (cases "agentStream ext (calls st)
      \<lparr>invReceiver = AgentV a, invMessage = m, invThreadId = t, invResourceId = r\<rparr>")
  from interact_agent [OF assms(1,2,3) ids(1) ids(2) out ids(1) ids(2)]
  show ?thesis
    by simp
qed

theorem supplied_identifiers_echoed_witness:
  "(\<exists>reply. fst (interactAgentHandler sampleExternals ''friendlybot'' helloAgain sampleServer) =
      Response 200 (Reply reply ''t1'' ''u1''))
   \<and> calls (snd (interactAgentHandler sampleExternals ''friendlybot'' helloAgain sampleServer)) =
     [\<lparr>invReceiver = AgentV (createAgentTemplate friendlyBot), invMessage = ''Hello'',
        invThreadId = ''t1'', invResourceId = ''u1''\<rparr>]"
proof -
  have "message helloAgain = Some ''Hello''" and "''Hello'' \<noteq> []"
    and "getProperty (agentInstances sampleServer) ''friendlybot'' =
      AgentV (createAgentTemplate friendlyBot)"
    and "threadId helloAgain = Some ''t1''" and "''t1'' \<noteq> []"
    and "resourceId helloAgain = Some ''u1''" and "''u1'' \<noteq> []"
    by (simp_all add: helloAgain_def sampleServer_friendlybot)
  from supplied_identifiers_echoed [OF this, of sampleExternals]
  show ?thesis
    by (simp add: sampleServer_fields)
qed

section \<open>Creating an agent twice\<close>

lemma helper_identity: "replaceWhitespace (toLowerCase ''Helper'') = ''helper''"
  by code_simp

lemma proto_identity: "replaceWhitespace (toLowerCase ''__proto__'') = ''__proto__''"
  by code_simp

lemma protoBot_fields:
  "name protoBot = Some ''__proto__''" "instructions protoBot = Some ''You are cheerful.''"
  "personality protoBot = Some ''friendly''" "model protoBot = None"
  "maxMemoryMessages protoBot = None"
  "name protoBotAgain = Some ''__proto__''" "instructions protoBotAgain = Some ''You are formal.''"
  "personality protoBotAgain = Some ''friendly''" "model protoBotAgain = None"
  "maxMemoryMessages protoBotAgain = None"
  by (simp_all add: protoBot_def protoBotAgain_def friendlyBot_def)

lemma protoBotAgain_name: "agentName (createAgentTemplate protoBotAgain) = ''__proto__''"
  by (simp add: createAgentTemplate_def protoBot_fields orElse_def Let_def)

lemma helperBots_differ: "createAgentTemplate helperBot \<noteq> createAgentTemplate helperBotAgain"
proof -
  have "agentInstructions (createAgentTemplate helperBot) \<noteq>
      agentInstructions (createAgentTemplate helperBotAgain)"
    by code_simp
  then show ?thesis
    by auto
qed

text \<open>
  Claim C4 at a concrete run. On a fresh server a converse call for \<open>name\<close> is answered
  404. Two agents named \<open>__proto__\<close> are then created, one after the other; both
  creations are answered 200. The assignment \<open>agentInstances['__proto__'] = agent\<close>
  makes the agent the prototype of the registry object, so every identity now reads as a
  property of the second agent: \<open>name\<close>, which was never registered and has no entry of
  its own, resolves to the name of that agent, and the converse call for it is no longer
  answered 404 but 200 with the apology. Only the second agent is left at
  \<open>__proto__\<close>.
\<close>

theorem proto_registration_leaks:
  "fst (interactAgentHandler plainObjectExternals ''name'' hello initialServer) =
     Response 404 (ErrorBody ''Agent with ID name not found'')
   \<and> fst (createAgentHandler plainObjectExternals (Some protoBot) initialServer) =
     Response 200 (Created
       \<lparr>detailsId = ''__proto__'', detailsName = ''__proto__'',
        detailsInstructions = ''You are cheerful.'', detailsPersonality = ''friendly'',
        detailsModel = ''qwen-2.5-32b'', detailsMaxMemoryMessages = Num 10\<rparr>)
   \<and> fst (createAgentHandler plainObjectExternals (Some protoBotAgain)
        (snd (createAgentHandler plainObjectExternals (Some protoBot) initialServer))) =
     Response 200 (Created
       \<lparr>detailsId = ''__proto__'', detailsName = ''__proto__'',
        detailsInstructions = ''You are formal.'', detailsPersonality = ''friendly'',
        detailsModel = ''qwen-2.5-32b'', detailsMaxMemoryMessages = Num 10\<rparr>)
   \<and> getProperty (agentInstances protoServer) ''__proto__'' =
     AgentV (createAgentTemplate protoBotAgain)
   \<and> own (agentInstances protoServer) ''name'' = None
   \<and> getProperty (agentInstances initialServer) ''name'' = Undefined
   \<and> getProperty (agentInstances protoServer) ''name'' =
     Member (createAgentTemplate protoBotAgain) ''name''
   \<and> fst (interactAgentHandler plainObjectExternals ''name'' hello protoServer) =
     Response 200 (Reply apology ''thread_1850'' ''user_1850'')"
proof -
  have registry: "agentInstances protoServer =
      \<lparr>own = Map.empty, proto = Some (createAgentTemplate protoBotAgain)\<rparr>"
    and clock: "ticks protoServer = 0" and history: "calls protoServer = []"
    by (simp_all add: protoServer_def run_simps plainObjectExternals_def protoBot_fields
        proto_identity)
  have before: "fst (interactAgentHandler plainObjectExternals ''name'' hello initialServer) =
     Response 404 (ErrorBody ''Agent with ID name not found'')"
    by (simp add: run_simps plainObjectExternals_def)
  have first: "fst (createAgentHandler plainObjectExternals (Some protoBot) initialServer) =
     Response 200 (Created
       \<lparr>detailsId = ''__proto__'', detailsName = ''__proto__'',
        detailsInstructions = ''You are cheerful.'', detailsPersonality = ''friendly'',
        detailsModel = ''qwen-2.5-32b'', detailsMaxMemoryMessages = Num 10\<rparr>)"
    by (simp add: run_simps plainObjectExternals_def protoBot_fields proto_identity)
  have second: "fst (createAgentHandler plainObjectExternals (Some protoBotAgain)
        (snd (createAgentHandler plainObjectExternals (Some protoBot) initialServer))) =
     Response 200 (Created
       \<lparr>detailsId = ''__proto__'', detailsName = ''__proto__'',
        detailsInstructions = ''You are formal.'', detailsPersonality = ''friendly'',
        detailsModel = ''qwen-2.5-32b'', detailsMaxMemoryMessages = Num 10\<rparr>)"
    by (simp add: run_simps plainObjectExternals_def protoBot_fields proto_identity)
  have resolved: "getProperty (agentInstances protoServer) ''__proto__'' =
      AgentV (createAgentTemplate protoBotAgain)"
    and absent: "own (agentInstances protoServer) ''name'' = None"
    and fresh: "getProperty (agentInstances initialServer) ''name'' = Undefined"
    and leaked: "getProperty (agentInstances protoServer) ''name'' =
      Member (createAgentTemplate protoBotAgain) ''name''"
    by (simp_all add: registry getProperty_def initialServer_def emptyRegistry_def
        objectPrototypeKeys_def)
  have after: "fst (interactAgentHandler plainObjectExternals ''name'' hello protoServer) =
     Response 200 (Reply apology ''thread_1850'' ''user_1850'')"
    by (simp add: interactAgentHandler_def leaked truthy_def orTimestamp_def dateNow_def
        simulateConversation_def callStream_def orElse_def Let_def hello_def clock history
        plainObjectExternals_def protoBotAgain_name numberToString_1850)
  show ?thesis
    by (intro conjI before first second resolved absent fresh leaked after)
qed

text \<open>
  Two creations, one after the other, whose configurations have the same identity. The
  registry is then the one that the second creation alone would have left: the identity
  resolves to the second agent, built from the second configuration only. The own entry
  of every other identity is as it was, and an identity that resolved to an agent still
  resolves to the same agent. When the shared identity is not \<open>__proto__\<close>, every
  other identity resolves to what it resolved to before.
\<close>

theorem creation_overwrites:
  assumes "deriveIdentity ext (name c1) st = (i, s1)"
    and "deriveIdentity ext (name c2) (snd (createAgentHandler ext (Some c1) st)) = (i, s2)"
  shows
    "agentInstances (snd (createAgentHandler ext (Some c2)
        (snd (createAgentHandler ext (Some c1) st)))) =
       setProperty (agentInstances st) i (createAgentTemplate c2)
     \<and> getProperty (agentInstances (snd (createAgentHandler ext (Some c2)
        (snd (createAgentHandler ext (Some c1) st))))) i = AgentV (createAgentTemplate c2)
     \<and> (\<forall>j. j \<noteq> i \<longrightarrow>
          own (agentInstances (snd (createAgentHandler ext (Some c2)
            (snd (createAgentHandler ext (Some c1) st))))) j = own (agentInstances st) j)
     \<and> (\<forall>j b. j \<noteq> i \<longrightarrow> getProperty (agentInstances st) j = AgentV b \<longrightarrow>
          getProperty (agentInstances (snd (createAgentHandler ext (Some c2)
            (snd (createAgentHandler ext (Some c1) st))))) j = AgentV b)
     \<and> (\<forall>j. j \<noteq> i \<longrightarrow> i \<noteq> ''__proto__'' \<longrightarrow>
          getProperty (agentInstances (snd (createAgentHandler ext (Some c2)
            (snd (createAgentHandler ext (Some c1) st))))) j =
          getProperty (agentInstances st) j)"
proof -
  have "agentInstances (snd (createAgentHandler ext (Some c2)
        (snd (createAgentHandler ext (Some c1) st)))) =
      setProperty (setProperty (agentInstances st) i (createAgentTemplate c1)) i
        (createAgentTemplate c2)"
    by (simp add: createAgentHandler_registry [OF assms(2)] createAgentHandler_registry [OF assms(1)])
  then have both: "agentInstances (snd (createAgentHandler ext (Some c2)
        (snd (createAgentHandler ext (Some c1) st)))) =
      setProperty (agentInstances st) i (createAgentTemplate c2)"
    by (simp only: setProperty_twice)
  show ?thesis
    unfolding both
    by (simp add: getProperty_setProperty_same own_setProperty_other
        getProperty_setProperty_entry getProperty_setProperty_other)
qed

theorem creation_overwrites_witness:
  "agentInstances helperServer =
     setProperty (agentInstances sampleServer) ''helper'' (createAgentTemplate helperBotAgain)
   \<and> getProperty (agentInstances helperServer) ''helper'' =
       AgentV (createAgentTemplate helperBotAgain)
   \<and> createAgentTemplate helperBot \<noteq> createAgentTemplate helperBotAgain
   \<and> own (agentInstances helperServer) ''friendlybot'' = Some (createAgentTemplate friendlyBot)
   \<and> getProperty (agentInstances helperServer) ''friendlybot'' =
       AgentV (createAgentTemplate friendlyBot)
   \<and> getProperty (agentInstances helperServer) ''nonexistent'' = Undefined"
proof -
  have names: "name helperBot = Some ''Helper''" "name helperBotAgain = Some ''Helper''"
    by (simp_all add: helperBot_def helperBotAgain_def friendlyBot_def)
  have given: "''Helper'' \<noteq> []"
    by simp
  have ids: "deriveIdentity sampleExternals (name helperBot) sampleServer =
      (''helper'', sampleServer)"
    "deriveIdentity sampleExternals (name helperBotAgain)
       (snd (createAgentHandler sampleExternals (Some helperBot) sampleServer)) =
      (''helper'', snd (createAgentHandler sampleExternals (Some helperBot) sampleServer))"
    unfolding names by (simp_all only: deriveIdentity_named [OF given] helper_identity)
  have other: "''friendlybot'' \<noteq> ''helper''" "''nonexistent'' \<noteq> ''helper''"
    "''helper'' \<noteq> ''__proto__''"
    by simp_all
  have before: "own (agentInstances sampleServer) ''friendlybot'' =
      Some (createAgentTemplate friendlyBot)"
    "getProperty (agentInstances sampleServer) ''friendlybot'' =
      AgentV (createAgentTemplate friendlyBot)"
    "getProperty (agentInstances sampleServer) ''nonexistent'' = Undefined"
    by (simp_all add: sampleServer_fields getProperty_def objectPrototypeKeys_def)
  note overwritten = creation_overwrites [OF ids, folded helperServer_def]
  note stored = overwritten [THEN conjunct1]
  note resolved = overwritten [THEN conjunct2, THEN conjunct1]
  note entry = overwritten [THEN conjunct2, THEN conjunct2, THEN conjunct1, rule_format,
      OF other(1)]
  note agent = overwritten [THEN conjunct2, THEN conjunct2, THEN conjunct2, THEN conjunct1,
      rule_format, OF other(1) before(2)]
  note others = overwritten [THEN conjunct2, THEN conjunct2, THEN conjunct2, THEN conjunct2,
      rule_format, OF other(2) other(3)]
  show ?thesis
    by (intro conjI stored resolved helperBots_differ trans [OF entry before(1)] agent
        trans [OF others before(3)])
qed

section \<open>Looking up an agent\<close>

text \<open>
  Claim C5 at a concrete call. The registry is empty, so \<open>constructor\<close> is not
  registered; reading it from the registry object gives the inherited
  \<open>Object.prototype.constructor\<close>, which is truthy. The handler does not answer 404: it
  goes on to \<open>simulateConversation\<close>, where the call of \<open>stream\<close> fails, and answers
  200 with the apology.
\<close>

theorem inherited_key_resolves:
  "own (agentInstances initialServer) ''constructor'' = None
   \<and> fst (interactAgentHandler sampleExternals ''constructor'' hello initialServer) =
       Response 200 (Reply apology ''thread_1850'' ''user_1850'')"
  by (simp add: run_simps sampleExternals_def)

text \<open>
  A converse call for an identity that is neither registered nor inherited from
  \<open>Object.prototype\<close> is answered with 404 and changes nothing, and no converse call
  changes the registry.
\<close>

theorem unregistered_agent_not_found:
  assumes "message reqBody = Some m" and "m \<noteq> []"
    and "own (agentInstances st) agentId = None" and "proto (agentInstances st) = None"
    and "agentId \<notin> set objectPrototypeKeys"
  shows "interactAgentHandler ext agentId reqBody st =
           (Response 404 (ErrorBody (''Agent with ID '' @ agentId @ '' not found'')), st)
      \<and> agentInstances (snd (interactAgentHandler ext2 agentId2 reqBody2 st2)) = agentInstances st2"
  using interact_not_found [OF assms(1,2) getProperty_unregistered [OF assms(3,4,5)]]
    interact_registry_unchanged [of ext2 agentId2 reqBody2 st2]
  by simp

theorem unregistered_agent_not_found_witness:
  "interactAgentHandler sampleExternals ''nonexistent'' hello initialServer =
     (Response 404 (ErrorBody ''Agent with ID nonexistent not found''), initialServer)"
proof -
  have "message hello = Some ''Hello''" and "''Hello'' \<noteq> []"
    and "own (agentInstances initialServer) ''nonexistent'' = None"
    and "proto (agentInstances initialServer) = None"
    and "''nonexistent'' \<notin> set objectPrototypeKeys"
    by (simp_all add: hello_def initialServer_def emptyRegistry_def objectPrototypeKeys_def)
  from unregistered_agent_not_found [OF this]
  show ?thesis
    by simp
qed

section \<open>What the framework is given\<close>

text \<open>
  Claim C7, as the code has it. In a converse call for a registered agent and a non-empty
  message the framework is called exactly once, with the agent (its name, its system prompt
  and its model), the message, and the thread and resource identifiers resolved for the
  call; when the stream ends normally the response text is the fragments in order,
  unaltered, and \<open>streamConversation\<close>, called with the same arguments, hands the
  fragments to \<open>onChunk\<close> one by one in that order and returns the same text. The agent
  read from the registry is the one \<open>createAgentTemplate\<close> built,
  and \<open>createAgentTemplate\<close> does not read \<open>maxMemoryMessages\<close>: no memory limit
  is part of what the framework is given.
\<close>

theorem converse_invocation:
  assumes "message reqBody = Some m" and "m \<noteq> []"
    and "getProperty (agentInstances st) agentId = AgentV a"
    and "orTimestamp ext (threadId reqBody) ''thread_'' st = (tid, st1)"
    and "orTimestamp ext (resourceId reqBody) ''user_'' st1 = (rid, st2)"
    and "agentStream ext (calls st)
           \<lparr>invReceiver = AgentV a, invMessage = m, invThreadId = tid, invResourceId = rid\<rparr>
         = (chunks, fin)"
    and "orTimestamp ext (threadId reqBody) ''thread_'' st2 = (tid', st4)"
    and "orTimestamp ext (resourceId reqBody) ''user_'' st4 = (rid', st5)"
  shows "calls (snd (interactAgentHandler ext agentId reqBody st)) =
           calls st @
             [\<lparr>invReceiver = AgentV a, invMessage = m, invThreadId = tid, invResourceId = rid\<rparr>]
      \<and> (fin = Completed \<longrightarrow>
            fst (interactAgentHandler ext agentId reqBody st) =
              Response 200 (Reply (concat chunks) tid' rid'))
      \<and> (fin = Completed \<longrightarrow>
            streamConversation ext (AgentV a) m tid rid (Some f) sink st =
              (Inr (concat chunks), foldl (\<lambda>s chunk. f chunk s) sink chunks,
               st\<lparr>calls := calls st @
                 [\<lparr>invReceiver = AgentV a, invMessage = m, invThreadId = tid,
                   invResourceId = rid\<rparr>]\<rparr>))
      \<and> getProperty (agentInstances (snd (createAgentHandler ext (Some config) earlier)))
            (fst (deriveIdentity ext (name config) earlier)) = AgentV (createAgentTemplate config)
      \<and> createAgentTemplate (config\<lparr>maxMemoryMessages := limit\<rparr>) = createAgentTemplate config"
  using interact_agent [OF assms] streamConversation_agent [OF assms(6), of "Some f" sink]
  by (auto simp: created_agent_resolves createAgentTemplate_ignores_limit)

theorem converse_invocation_witness:
  "calls (snd (interactAgentHandler sampleExternals ''friendlybot'' helloAgain sampleServer)) =
     [\<lparr>invReceiver = AgentV (createAgentTemplate friendlyBot), invMessage = ''Hello'',
        invThreadId = ''t1'', invResourceId = ''u1''\<rparr>]
   \<and> fst (interactAgentHandler sampleExternals ''friendlybot'' helloAgain sampleServer) =
     Response 200 (Reply ''Hello there'' ''t1'' ''u1'')
   \<and> streamConversation sampleExternals (AgentV (createAgentTemplate friendlyBot)) ''Hello''
       ''t1'' ''u1'' (Some (\<lambda>chunk out. out @ [chunk])) [] sampleServer =
     (Inr ''Hello there'', [''Hello'', '' there''],
      sampleServer
        \<lparr>calls :=
           [\<lparr>invReceiver = AgentV (createAgentTemplate friendlyBot), invMessage = ''Hello'',
              invThreadId = ''t1'', invResourceId = ''u1''\<rparr>]\<rparr>)"
proof -
  have out: "agentStream sampleExternals (calls sampleServer)
      \<lparr>invReceiver = AgentV (createAgentTemplate friendlyBot), invMessage = ''Hello'',
        invThreadId = ''t1'', invResourceId = ''u1''\<rparr> = ([''Hello'', '' there''], Completed)"
    by (simp add: sampleExternals_def)
  have m: "''Hello'' \<noteq> []"
    by simp
  from converse_invocation
    [OF helloAgain_ids(1) m sampleServer_friendlybot helloAgain_ids(2) helloAgain_ids(3) out
      helloAgain_ids(2) helloAgain_ids(3),
      where f = "\<lambda>chunk out. out @ [chunk]" and sink = "[]" and config = friendlyBot
        and earlier = initialServer and limit = None]
  show ?thesis
    by (simp add: sampleServer_fields)
qed

text \<open>
  The claim C7 as stated has the \<open>maxMemoryMessages\<close> bound passed to the framework.
  Two agents that differ only in that bound, 5 and 50, lead to the same call: the list
  below is everything the framework receives.
\<close>

theorem memory_limit_not_passed:
  "calls (snd (serve sampleExternals
       [CreateAgent (Some (friendlyBot\<lparr>maxMemoryMessages := Some (Num 5)\<rparr>)),
        Interact ''friendlybot'' hello] initialServer)) =
     [\<lparr>invReceiver = AgentV
          \<lparr>agentName = ''FriendlyBot'',
            agentInstructions = ''You are cheerful.'' @ [CHR 0x0A] @ ''Your name is FriendlyBot.''
              @ [CHR 0x0A] @ ''Please respond in a friendly tone.'',
            agentModel = ''qwen-2.5-32b''\<rparr>,
        invMessage = ''Hello'', invThreadId = ''thread_1000'', invResourceId = ''user_1000''\<rparr>]
   \<and> calls (snd (serve sampleExternals
       [CreateAgent (Some (friendlyBot\<lparr>maxMemoryMessages := Some (Num 50)\<rparr>)),
        Interact ''friendlybot'' hello] initialServer)) =
     [\<lparr>invReceiver = AgentV
          \<lparr>agentName = ''FriendlyBot'',
            agentInstructions = ''You are cheerful.'' @ [CHR 0x0A] @ ''Your name is FriendlyBot.''
              @ [CHR 0x0A] @ ''Please respond in a friendly tone.'',
            agentModel = ''qwen-2.5-32b''\<rparr>,
        invMessage = ''Hello'', invThreadId = ''thread_1000'', invResourceId = ''user_1000''\<rparr>]"
proof -
  have nm: "name friendlyBot = Some ''FriendlyBot''"
    by (simp add: friendlyBot_def)
  show ?thesis
    by (simp add: run_simps nm friendlyBot_agent sampleExternals_def)
qed

section \<open>Failures of the framework\<close>

text \<open>
  Claim C8. When the call of \<open>stream\<close> on an agent fails, at once or after some
  fragments, both conversation helpers catch the failure: they return the apology as an
  ordinary result instead of throwing, they write the cause to \<open>console.error\<close>, and
  they leave the registry and the \<open>Mastra\<close> instance as they were, so nothing that
  another conversation depends on is touched. The fragments that \<open>streamConversation\<close>
  has already handed to \<open>onChunk\<close> stay delivered.
\<close>

theorem invocation_failure_degrades:
  assumes "orTimestamp ext thr ''thread_'' st = (tid, st1)"
    and "orTimestamp ext rsc ''user_'' st1 = (rid, st2)"
    and "agentStream ext (calls st)
           \<lparr>invReceiver = AgentV a, invMessage = msg, invThreadId = tid, invResourceId = rid\<rparr>
         = (chunks, Aborted cause)"
  shows "simulateConversation ext (AgentV a) msg thr rsc st =
           (Inr apology,
            st2\<lparr>calls := calls st @
                  [\<lparr>invReceiver = AgentV a, invMessage = msg, invThreadId = tid,
                    invResourceId = rid\<rparr>],
                stderr := stderr st @ [(''Error in simulateConversation:'', cause)]\<rparr>)
      \<and> agentInstances (snd (simulateConversation ext (AgentV a) msg thr rsc st)) = agentInstances st
      \<and> mastraInstance (snd (simulateConversation ext (AgentV a) msg thr rsc st)) = mastraInstance st
      \<and> streamConversation ext (AgentV a) msg tid rid onChunk sink st =
           (Inr apology,
            case onChunk of None \<Rightarrow> sink | Some f \<Rightarrow> foldl (\<lambda>s chunk. f chunk s) sink chunks,
            st\<lparr>calls := calls st @
                  [\<lparr>invReceiver = AgentV a, invMessage = msg, invThreadId = tid,
                    invResourceId = rid\<rparr>],
               stderr := stderr st @ [(''Error in streamConversation:'', cause)]\<rparr>)"
proof -
  have frame: "agentInstances st2 = agentInstances st" "mastraInstance st2 = mastraInstance st"
    using orTimestamp_frame [OF assms(1)] orTimestamp_frame [OF assms(2)] by simp_all
  show ?thesis
    using simulateConversation_agent [OF assms] streamConversation_agent [OF assms(3)] frame
    by simp
qed

theorem invocation_failure_degrades_witness:
  "simulateConversation failingExternals (AgentV (createAgentTemplate friendlyBot)) ''Hello''
       (Some ''t1'') (Some ''u1'') initialServer =
     (Inr apology,
      initialServer
        \<lparr>calls :=
           [\<lparr>invReceiver = AgentV (createAgentTemplate friendlyBot), invMessage = ''Hello'',
              invThreadId = ''t1'', invResourceId = ''u1''\<rparr>],
         stderr := [(''Error in simulateConversation:'', ''socket hang up'')]\<rparr>)
   \<and> streamConversation failingExternals (AgentV (createAgentTemplate friendlyBot)) ''Hello''
       ''t1'' ''u1'' (Some (\<lambda>chunk out. out @ chunk)) '''' initialServer =
     (Inr apology, ''Hel'',
      initialServer
        \<lparr>calls :=
           [\<lparr>invReceiver = AgentV (createAgentTemplate friendlyBot), invMessage = ''Hello'',
              invThreadId = ''t1'', invResourceId = ''u1''\<rparr>],
         stderr := [(''Error in streamConversation:'', ''socket hang up'')]\<rparr>)"
proof -
  have t: "orTimestamp failingExternals (Some ''t1'') ''thread_'' initialServer = (''t1'', initialServer)"
    by (simp add: orTimestamp_supplied)
  have r: "orTimestamp failingExternals (Some ''u1'') ''user_'' initialServer = (''u1'', initialServer)"
    by (simp add: orTimestamp_supplied)
  have out: "agentStream failingExternals (calls initialServer)
      \<lparr>invReceiver = AgentV (createAgentTemplate friendlyBot), invMessage = ''Hello'',
        invThreadId = ''t1'', invResourceId = ''u1''\<rparr> = ([''Hel''], Aborted ''socket hang up'')"
    by (simp add: failingExternals_def)
  have c: "calls initialServer = []" and e: "stderr initialServer = []"
    by (simp_all add: initialServer_def)
  show ?thesis
    using invocation_failure_degrades [OF t r out, of "Some (\<lambda>chunk out. out @ chunk)" "''''"]
    by (simp add: c e)
qed

text \<open>
  Claim C10. When the call of \<open>stream\<close> fails during a converse call, the response
  is 200 with status \<open>success\<close> and the apology as its \<open>response\<close> text, and the
  cause goes to \<open>console.error\<close>. No converse call, whatever its input, ends in the 500
  response of the handler's inner \<open>catch\<close>. And the response to a failed call is the
  very response that a framework would cause whose stream ends normally after the single
  fragment that is the apology text: the status field does not tell the two apart.
\<close>

theorem failure_answered_as_success:
  assumes "message reqBody = Some m" and "m \<noteq> []"
    and "getProperty (agentInstances st) agentId = AgentV a"
    and "orTimestamp ext (threadId reqBody) ''thread_'' st = (tid, st1)"
    and "orTimestamp ext (resourceId reqBody) ''user_'' st1 = (rid, st2)"
    and "agentStream ext (calls st)
           \<lparr>invReceiver = AgentV a, invMessage = m, invThreadId = tid, invResourceId = rid\<rparr>
         = (chunks, Aborted cause)"
    and "orTimestamp ext (threadId reqBody) ''thread_'' st2 = (tid', st4)"
    and "orTimestamp ext (resourceId reqBody) ''user_'' st4 = (rid', st5)"
  shows "fst (interactAgentHandler ext agentId reqBody st) = Response 200 (Reply apology tid' rid')
      \<and> bodyStatus (responseBody (fst (interactAgentHandler ext agentId reqBody st))) = ''success''
      \<and> stderr (snd (interactAgentHandler ext agentId reqBody st)) =
            stderr st @ [(''Error in simulateConversation:'', cause)]
      \<and> responseCode (fst (interactAgentHandler ext2 agentId2 reqBody2 st')) \<noteq> 500
      \<and> (clock ext3 = clock ext \<longrightarrow>
           agentStream ext3 (calls st)
             \<lparr>invReceiver = AgentV a, invMessage = m, invThreadId = tid, invResourceId = rid\<rparr>
             = ([apology], Completed) \<longrightarrow>
           fst (interactAgentHandler ext3 agentId reqBody st) =
             fst (interactAgentHandler ext agentId reqBody st))"
proof -
  note failed = interact_agent [OF assms]
  have genuine: "fst (interactAgentHandler ext3 agentId reqBody st) =
      fst (interactAgentHandler ext agentId reqBody st)"
    if same: "clock ext3 = clock ext"
      and out: "agentStream ext3 (calls st)
        \<lparr>invReceiver = AgentV a, invMessage = m, invThreadId = tid, invResourceId = rid\<rparr>
        = ([apology], Completed)"
  proof -
    from same have clk: "\<And>v p s. orTimestamp ext3 v p s = orTimestamp ext v p s"
      by (rule orTimestamp_clock)
    have t1: "orTimestamp ext3 (threadId reqBody) ''thread_'' st = (tid, st1)"
      and r1: "orTimestamp ext3 (resourceId reqBody) ''user_'' st1 = (rid, st2)"
      and t2: "orTimestamp ext3 (threadId reqBody) ''thread_'' st2 = (tid', st4)"
      and r2: "orTimestamp ext3 (resourceId reqBody) ''user_'' st4 = (rid', st5)"
      using assms(4,5,7,8) by (simp_all only: clk)
    note interact_agent [OF assms(1,2,3) t1 r1 out t2 r2]
    with failed show ?thesis
      by simp
  qed
  from failed genuine interact_never_500 [of ext2 agentId2 reqBody2 st'] show ?thesis
    by simp
qed

theorem failure_answered_as_success_witness:
  "fst (interactAgentHandler failingExternals ''friendlybot'' helloAgain sampleServer) =
     Response 200 (Reply apology ''t1'' ''u1'')
   \<and> bodyStatus (responseBody
        (fst (interactAgentHandler failingExternals ''friendlybot'' helloAgain sampleServer))) =
     ''success''
   \<and> stderr (snd (interactAgentHandler failingExternals ''friendlybot'' helloAgain sampleServer)) =
     [(''Error in simulateConversation:'', ''socket hang up'')]"
proof -
  have out: "agentStream failingExternals (calls sampleServer)
      \<lparr>invReceiver = AgentV (createAgentTemplate friendlyBot), invMessage = ''Hello'',
        invThreadId = ''t1'', invResourceId = ''u1''\<rparr> = ([''Hel''], Aborted ''socket hang up'')"
    by (simp add: failingExternals_def)
  have m: "''Hello'' \<noteq> []"
    by simp
  from failure_answered_as_success
    [OF helloAgain_ids(1) m sampleServer_friendlybot helloAgain_ids(2) helloAgain_ids(3) out
      helloAgain_ids(2) helloAgain_ids(3)]
  show ?thesis
    by (simp add: sampleServer_fields)
qed

section \<open>Filling in the defaults\<close>

lemma orElse_cases:
  "orElse None d = d" "orElse (Some []) d = d" "v \<noteq> [] \<Longrightarrow> orElse (Some v) d = v"
  by (simp_all add: orElse_def)

lemma orNumber_cases:
  "orNumber None d = Num d" "orNumber (Some NaN) d = Num d" "orNumber (Some (Num 0)) d = Num d"
  "x \<noteq> NaN \<Longrightarrow> x \<noteq> Num 0 \<Longrightarrow> orNumber (Some x) d = x"
  by (cases x; simp add: orNumber_def)+

lemma positiveInteger_ten: "positiveInteger (Num 10)"
  by (simp add: positiveInteger_def)

lemma positiveInteger_orNumber:
  "positiveInteger (orNumber v 10) \<longleftrightarrow>
     v = None \<or> v = Some NaN \<or> v = Some (Num 0) \<or> (\<exists>x. v = Some x \<and> positiveInteger x)"
proof (cases v)
  case None
  then show ?thesis by (simp add: orNumber_def positiveInteger_ten)
next
  case (Some x)
  show ?thesis
  proof (cases "x = NaN \<or> x = Num 0")
    case True
    with Some show ?thesis
      by (auto simp: orNumber_def positiveInteger_ten)
  next
    case False
    then have "orNumber (Some x) 10 = x"
      by (simp add: orNumber_cases)
    with Some False show ?thesis
      by simp
  qed
qed

lemma deriveIdentity_empty:
  "deriveIdentity ext (Some []) st = deriveIdentity ext None st"
  by (simp add: deriveIdentity_def orTimestamp_def toLowerCase_def)

lemma createAgentTemplate_empty_fields:
  "createAgentTemplate (config\<lparr>name := Some []\<rparr>) = createAgentTemplate (config\<lparr>name := None\<rparr>)"
  "createAgentTemplate (config\<lparr>instructions := Some []\<rparr>) =
     createAgentTemplate (config\<lparr>instructions := None\<rparr>)"
  "createAgentTemplate (config\<lparr>personality := Some []\<rparr>) =
     createAgentTemplate (config\<lparr>personality := None\<rparr>)"
  "createAgentTemplate (config\<lparr>model := Some []\<rparr>) = createAgentTemplate (config\<lparr>model := None\<rparr>)"
  by (simp_all add: createAgentTemplate_def orElse_def)

lemma createAgentHandler_empty_fields:
  "createAgentHandler ext (Some (config\<lparr>name := Some []\<rparr>)) st =
     createAgentHandler ext (Some (config\<lparr>name := None\<rparr>)) st"
  "createAgentHandler ext (Some (config\<lparr>instructions := Some []\<rparr>)) st =
     createAgentHandler ext (Some (config\<lparr>instructions := None\<rparr>)) st"
  "createAgentHandler ext (Some (config\<lparr>personality := Some []\<rparr>)) st =
     createAgentHandler ext (Some (config\<lparr>personality := None\<rparr>)) st"
  "createAgentHandler ext (Some (config\<lparr>model := Some []\<rparr>)) st =
     createAgentHandler ext (Some (config\<lparr>model := None\<rparr>)) st"
  by (simp_all add: createAgentHandler_def createAgentTemplate_empty_fields deriveIdentity_empty
      orElse_cases Let_def split: prod.splits sum.splits)

text \<open>
  Claim C6, as the code has it. Filling in the defaults never fails. The agent is built
  with the name, the instructions, the personality and the model of the configuration or,
  where a field is absent or empty, with \<open>Base Agent\<close>,
  \<open>You are a helpful assistant.\<close>, \<open>neutral\<close> and \<open>qwen-2.5-32b\<close>, and it is
  stored under its identity. The creation is answered 200 with the same fields filled the
  same way whenever \<open>new Mastra\<close> returns normally, and 500 when it throws. An empty
  field gives the same response and the same state as an absent one.
  \<open>maxMemoryMessages\<close> is 10 when it is absent, zero or \<open>NaN\<close> and is otherwise the
  supplied number as it is, unchecked: the value shown is a positive integer exactly when
  the supplied one is absent, zero, \<open>NaN\<close> or itself a positive integer.
\<close>

theorem normalization_defaults:
  "createAgentTemplate config =
     \<lparr>agentName = orElse (name config) ''Base Agent'',
      agentInstructions =
        fullInstructions (orElse (instructions config) ''You are a helpful assistant.'')
          (orElse (name config) ''Base Agent'') (orElse (personality config) ''neutral''),
      agentModel = orElse (model config) ''qwen-2.5-32b''\<rparr>
   \<and> agentInstances (snd (createAgentHandler ext (Some config) st)) =
       setProperty (agentInstances st) (fst (deriveIdentity ext (name config) st))
         (createAgentTemplate config)
   \<and> fst (createAgentHandler ext (Some config) st) =
       (case mastraError ext
               (setProperty (agentInstances st) (fst (deriveIdentity ext (name config) st))
                  (createAgentTemplate config)) of
          None \<Rightarrow>
            Response 200 (Created
              \<lparr>detailsId = fst (deriveIdentity ext (name config) st),
               detailsName = orElse (name config) ''Base Agent'',
               detailsInstructions =
                 orElse (instructions config) ''You are a helpful assistant.'',
               detailsPersonality = orElse (personality config) ''neutral'',
               detailsModel = orElse (model config) ''qwen-2.5-32b'',
               detailsMaxMemoryMessages = orNumber (maxMemoryMessages config) 10\<rparr>)
        | Some err \<Rightarrow> Response 500 (AgentFailed ''Internal server error'' err))
   \<and> orElse None d = d \<and> orElse (Some []) d = d \<and> (v \<noteq> [] \<longrightarrow> orElse (Some v) d = v)
   \<and> createAgentHandler ext (Some (config\<lparr>name := Some []\<rparr>)) st =
       createAgentHandler ext (Some (config\<lparr>name := None\<rparr>)) st
   \<and> createAgentHandler ext (Some (config\<lparr>instructions := Some []\<rparr>)) st =
       createAgentHandler ext (Some (config\<lparr>instructions := None\<rparr>)) st
   \<and> createAgentHandler ext (Some (config\<lparr>personality := Some []\<rparr>)) st =
       createAgentHandler ext (Some (config\<lparr>personality := None\<rparr>)) st
   \<and> createAgentHandler ext (Some (config\<lparr>model := Some []\<rparr>)) st =
       createAgentHandler ext (Some (config\<lparr>model := None\<rparr>)) st
   \<and> orNumber None 10 = Num 10 \<and> orNumber (Some NaN) 10 = Num 10
   \<and> orNumber (Some (Num 0)) 10 = Num 10
   \<and> (x \<noteq> NaN \<longrightarrow> x \<noteq> Num 0 \<longrightarrow> orNumber (Some x) 10 = x)
   \<and> (positiveInteger (orNumber (maxMemoryMessages config) 10) \<longleftrightarrow>
        maxMemoryMessages config = None \<or> maxMemoryMessages config = Some NaN
        \<or> maxMemoryMessages config = Some (Num 0)
        \<or> (\<exists>y. maxMemoryMessages config = Some y \<and> positiveInteger y))"
proof -
  obtain i st1 where id: "deriveIdentity ext (name config) st = (i, st1)"
    by (cases "deriveIdentity ext (name config) st")
  have built: "createAgentTemplate config =
     \<lparr>agentName = orElse (name config) ''Base Agent'',
      agentInstructions =
        fullInstructions (orElse (instructions config) ''You are a helpful assistant.'')
          (orElse (name config) ''Base Agent'') (orElse (personality config) ''neutral''),
      agentModel = orElse (model config) ''qwen-2.5-32b''\<rparr>"
    by (simp add: createAgentTemplate_def Let_def)
  have stored: "agentInstances (snd (createAgentHandler ext (Some config) st)) =
       setProperty (agentInstances st) (fst (deriveIdentity ext (name config) st))
         (createAgentTemplate config)"
    using createAgentHandler_registry [OF id] by (simp add: id)
  have answered: "fst (createAgentHandler ext (Some config) st) =
       (case mastraError ext
               (setProperty (agentInstances st) (fst (deriveIdentity ext (name config) st))
                  (createAgentTemplate config)) of
          None \<Rightarrow>
            Response 200 (Created
              \<lparr>detailsId = fst (deriveIdentity ext (name config) st),
               detailsName = orElse (name config) ''Base Agent'',
               detailsInstructions =
                 orElse (instructions config) ''You are a helpful assistant.'',
               detailsPersonality = orElse (personality config) ''neutral'',
               detailsModel = orElse (model config) ''qwen-2.5-32b'',
               detailsMaxMemoryMessages = orNumber (maxMemoryMessages config) 10\<rparr>)
        | Some err \<Rightarrow> Response 500 (AgentFailed ''Internal server error'' err))"
    unfolding createAgentHandler_result [OF id]
    by (cases "mastraError ext (setProperty (agentInstances st) i (createAgentTemplate config))")
      (simp_all add: id)
  have limit: "x \<noteq> NaN \<longrightarrow> x \<noteq> Num 0 \<longrightarrow> orNumber (Some x) 10 = x"
    by (simp add: orNumber_cases)
  have filled: "orElse None d = d \<and> orElse (Some []) d = d \<and> (v \<noteq> [] \<longrightarrow> orElse (Some v) d = v)"
    by (simp add: orElse_cases)
  have tens: "orNumber None 10 = Num 10 \<and> orNumber (Some NaN) 10 = Num 10
      \<and> orNumber (Some (Num 0)) 10 = Num 10"
    by (simp add: orNumber_cases)
  note empty = createAgentHandler_empty_fields [of ext config st]
  note positive = positiveInteger_orNumber [of "maxMemoryMessages config"]
  from built stored answered filled empty tens limit positive show ?thesis
    by (intro conjI) blast+
qed

theorem normalization_defaults_witness:
  "fst (createAgentHandler sampleExternals (Some friendlyBot) initialServer) =
     Response 200 (Created
       \<lparr>detailsId = ''friendlybot'', detailsName = ''FriendlyBot'',
        detailsInstructions = ''You are cheerful.'', detailsPersonality = ''friendly'',
        detailsModel = ''qwen-2.5-32b'', detailsMaxMemoryMessages = Num 10\<rparr>)
   \<and> fst (createAgentHandler sampleExternals
        (Some \<lparr>name = None, instructions = None, personality = None, model = None,
                maxMemoryMessages = None\<rparr>) initialServer) =
     Response 200 (Created
       \<lparr>detailsId = ''agent_1000'', detailsName = ''Base Agent'',
        detailsInstructions = ''You are a helpful assistant.'', detailsPersonality = ''neutral'',
        detailsModel = ''qwen-2.5-32b'', detailsMaxMemoryMessages = Num 10\<rparr>)
   \<and> fst (createAgentHandler plainObjectExternals
        (Some (friendlyBot\<lparr>name := Some ''constructor''\<rparr>)) initialServer) =
     Response 500
       (AgentFailed ''Internal server error'' ''Agent with name ID:constructor already exists'')
   \<and> orElse (Some ''formal'') ''neutral'' = ''formal''
   \<and> orNumber (Some (Num 5)) 10 = Num 5"
proof -
  have fields: "name friendlyBot = Some ''FriendlyBot''"
    "instructions friendlyBot = Some ''You are cheerful.''"
    "personality friendlyBot = Some ''friendly''" "model friendlyBot = None"
    "maxMemoryMessages friendlyBot = None"
    by (simp_all add: friendlyBot_def)
  have reserved: "replaceWhitespace (toLowerCase ''constructor'') = ''constructor''"
    by code_simp
  have given: "''formal'' \<noteq> []" "Num 5 \<noteq> NaN" "Num 5 \<noteq> Num 0"
    by simp_all
  have clock: "clock sampleExternals 0 = 1000"
    by (simp add: sampleExternals_def)
  note scenario = normalization_defaults
    [of friendlyBot sampleExternals initialServer "''neutral''" "''formal''" "Num 5"]
  note nothing = normalization_defaults
    [of "\<lparr>name = None, instructions = None, personality = None, model = None,
        maxMemoryMessages = None\<rparr>" sampleExternals initialServer "''neutral''" "''formal''" "Num 5"]
  note refused = normalization_defaults
    [of "friendlyBot\<lparr>name := Some ''constructor''\<rparr>" plainObjectExternals initialServer
      "''neutral''" "''formal''" "Num 5"]
  from scenario have a:
    "fst (createAgentHandler sampleExternals (Some friendlyBot) initialServer) =
     Response 200 (Created
       \<lparr>detailsId = ''friendlybot'', detailsName = ''FriendlyBot'',
        detailsInstructions = ''You are cheerful.'', detailsPersonality = ''friendly'',
        detailsModel = ''qwen-2.5-32b'', detailsMaxMemoryMessages = Num 10\<rparr>)"
    by (simp add: fields run_simps sampleExternals_def)
  from nothing have b: "fst (createAgentHandler sampleExternals
        (Some \<lparr>name = None, instructions = None, personality = None, model = None,
                maxMemoryMessages = None\<rparr>) initialServer) =
     Response 200 (Created
       \<lparr>detailsId = ''agent_1000'', detailsName = ''Base Agent'',
        detailsInstructions = ''You are a helpful assistant.'', detailsPersonality = ''neutral'',
        detailsModel = ''qwen-2.5-32b'', detailsMaxMemoryMessages = Num 10\<rparr>)"
    by (simp add: run_simps sampleExternals_def clock)
  from refused have c: "fst (createAgentHandler plainObjectExternals
        (Some (friendlyBot\<lparr>name := Some ''constructor''\<rparr>)) initialServer) =
     Response 500
       (AgentFailed ''Internal server error'' ''Agent with name ID:constructor already exists'')"
    by (simp add: run_simps plainObjectExternals_def reserved)
  from scenario given have d: "orElse (Some ''formal'') ''neutral'' = ''formal''"
    and e: "orNumber (Some (Num 5)) 10 = Num 5"
    by blast+
  from a b c d e show ?thesis
    by blast
qed

text \<open>
  The claim C6 as stated has a supplied \<open>maxMemoryMessages\<close> normalised to a positive
  integer. A supplied -5 is kept, and so is a supplied 2.5.
\<close>

theorem unvalidated_limit_counterexample:
  "fst (createAgentHandler sampleExternals
          (Some (friendlyBot\<lparr>maxMemoryMessages := Some (Num (- 5))\<rparr>)) initialServer) =
     Response 200 (Created
       \<lparr>detailsId = ''friendlybot'', detailsName = ''FriendlyBot'',
        detailsInstructions = ''You are cheerful.'', detailsPersonality = ''friendly'',
        detailsModel = ''qwen-2.5-32b'', detailsMaxMemoryMessages = Num (- 5)\<rparr>)
   \<and> \<not> positiveInteger (Num (- 5))
   \<and> fst (createAgentHandler sampleExternals
          (Some (friendlyBot\<lparr>maxMemoryMessages := Some (Num (5 / 2))\<rparr>)) initialServer) =
     Response 200 (Created
       \<lparr>detailsId = ''friendlybot'', detailsName = ''FriendlyBot'',
        detailsInstructions = ''You are cheerful.'', detailsPersonality = ''friendly'',
        detailsModel = ''qwen-2.5-32b'', detailsMaxMemoryMessages = Num (5 / 2)\<rparr>)
   \<and> \<not> positiveInteger (Num (5 / 2))"
proof -
  have fields: "name friendlyBot = Some ''FriendlyBot''"
    "instructions friendlyBot = Some ''You are cheerful.''"
    "personality friendlyBot = Some ''friendly''" "model friendlyBot = None"
    by (simp_all add: friendlyBot_def)
  have floor: "\<lfloor>5 / 2 :: rat\<rfloor> = 2"
    by (rule floor_unique) simp_all
  have half: "\<not> positiveInteger (Num (5 / 2))"
    unfolding positiveInteger_def number.case floor by simp
  have negative: "\<not> positiveInteger (Num (- 5))"
    by (simp add: positiveInteger_def)
  show ?thesis
    by (simp add: fields run_simps sampleExternals_def half negative)
qed

section \<open>Starting the server\<close>

lemma serve_length: "length (fst (serve ext reqs st)) = length reqs"
  by (induction reqs arbitrary: st) (simp_all add: split_beta)

text \<open>
  Claim C9. When \<open>GOOGLE_API_KEY\<close> or \<open>GROQ_API_KEY\<close> is absent, the process
  ends with the fatal error before it handles anything, whatever requests are waiting. A
  fatal end has no other cause than a missing (or empty) credential: with both present the
  server starts and every request gets a response.
\<close>

theorem startup_halts:
  "(env ''GOOGLE_API_KEY'' = None \<or> env ''GROQ_API_KEY'' = None \<longrightarrow>
      (\<exists>fatal. runServer ext env reqs = Inl fatal))
   \<and> ((\<exists>fatal. runServer ext env reqs = Inl fatal) \<longleftrightarrow>
        orElse (env ''GOOGLE_API_KEY'') [] = [] \<or> orElse (env ''GROQ_API_KEY'') [] = [])
   \<and> (orElse (env ''GOOGLE_API_KEY'') [] \<noteq> [] \<longrightarrow> orElse (env ''GROQ_API_KEY'') [] \<noteq> [] \<longrightarrow>
        (\<exists>out st'. runServer ext env reqs = Inr (out, st') \<and> length out = length reqs))"
proof -
  have absent: "orElse None [] = []"
    by (simp add: orElse_def)
  have run: "runServer ext env reqs =
      (if orElse (env ''GOOGLE_API_KEY'') [] = []
       then Inl ''FATAL: GOOGLE_API_KEY environment variable not found!''
       else if orElse (env ''GROQ_API_KEY'') [] = []
       then Inl ''FATAL: GROQ_API_KEY environment variable not found!''
       else Inr (serve ext reqs initialServer))"
    by (simp add: runServer_def startServer_def loadAgentTemplate_def)
  have served: "\<exists>out st'. serve ext reqs initialServer = (out, st') \<and> length out = length reqs"
    using serve_length [of ext reqs initialServer]
    by (cases "serve ext reqs initialServer") simp
  show ?thesis
    unfolding run using absent served by auto
qed

theorem startup_halts_witness:
  "(\<exists>fatal. runServer sampleExternals [''GOOGLE_API_KEY'' \<mapsto> ''g-key'']
       [CreateAgent (Some friendlyBot)] = Inl fatal)
   \<and> (\<exists>out st'. runServer sampleExternals
         [''GOOGLE_API_KEY'' \<mapsto> ''g-key'', ''GROQ_API_KEY'' \<mapsto> ''q-key'']
         [CreateAgent (Some friendlyBot)] = Inr (out, st') \<and> length out = 1)"
proof -
  have "\<exists>fatal. runServer sampleExternals [''GOOGLE_API_KEY'' \<mapsto> ''g-key'']
       [CreateAgent (Some friendlyBot)] = Inl fatal"
    using startup_halts [of "[''GOOGLE_API_KEY'' \<mapsto> ''g-key'']" sampleExternals
      "[CreateAgent (Some friendlyBot)]"]
    by simp
  moreover have "\<exists>out st'. runServer sampleExternals
         [''GOOGLE_API_KEY'' \<mapsto> ''g-key'', ''GROQ_API_KEY'' \<mapsto> ''q-key'']
         [CreateAgent (Some friendlyBot)] = Inr (out, st') \<and> length out = 1"
    using startup_halts [of "[''GOOGLE_API_KEY'' \<mapsto> ''g-key'', ''GROQ_API_KEY'' \<mapsto> ''q-key'']"
      sampleExternals "[CreateAgent (Some friendlyBot)]"]
    by (simp add: orElse_def)
  ultimately show ?thesis
    by (rule conjI)
qed

end
